theory Spec2Isabelle
  imports Main "HOL-Library.Char_ord" "HOL-Library.List_Lexorder" "HOL-Library.Sublist"
begin

section \<open>JavaScript values as the handlers see them\<close>

text \<open>
  The repository holds three variants of one request handler:
  \<^item> \<^verbatim>\<open>netlify/functions/fortune.js\<close> (Chat Completions, expiry answered with a 200
    notice); its definitions carry the prefix \<open>N_\<close>;
  \<^item> the Netlify variant that calls the Responses API, validates the date of birth
    strictly and appends a sign-off block (prefix \<open>R_\<close>, or the source's own
    function names);
  \<^item> the Vercel variant \<^verbatim>\<open>api/fortune.js\<close> (expiry answered with 410), prefix
    \<open>V_\<close>.

  Strings are lists of bytes (the UTF-8 encoding of the JavaScript string). A JSON
  number is represented by its canonical JavaScript rendering (\<open>String(n)\<close>), which is
  all the handlers can observe of it: whether it is zero and how it prints. An object
  lists each of its keys once, as a result of \<open>JSON.parse\<close> does.
  \<open>undefined\<close> is \<open>None\<close> of type \<open>json option\<close>.
\<close>

datatype json =
    JNull
  | JBool bool
  | JNum string
  | JStr string
  | JArr "json list"
  | JObj "(string \<times> json) list"

type_synonym jsval = "json option"

datatype exn = SyntaxError | TypeError | NetworkError | ApiError nat string | MissingApiKey

text \<open>ToBoolean: \<open>undefined\<close>, \<open>null\<close>, \<open>false\<close>, \<open>0\<close> and \<open>""\<close> are falsy.\<close>

fun truthy :: "jsval \<Rightarrow> bool" where
  "truthy None = False"
| "truthy (Some JNull) = False"
| "truthy (Some (JBool b)) = b"
| "truthy (Some (JNum n)) = (n \<noteq> ''0'')"
| "truthy (Some (JStr s)) = (s \<noteq> [])"
| "truthy (Some (JArr xs)) = True"
| "truthy (Some (JObj kvs)) = True"

text \<open>An environment variable or a raw body is a string or absent.\<close>

definition truthy_str :: "string option \<Rightarrow> bool" where
  "truthy_str v = (case v of None \<Rightarrow> False | Some s \<Rightarrow> s \<noteq> [])"

text \<open>\<open>body || "{}"\<close>.\<close>

definition or_empty_object :: "string option \<Rightarrow> string" where
  "or_empty_object v = (case v of None \<Rightarrow> ''{}'' | Some s \<Rightarrow> if s = [] then ''{}'' else s)"

text \<open>
  Property read \<open>v.k\<close>, for the names the handlers read (\<open>dob\<close>, \<open>language\<close>,
  \<open>choices\<close>, \<open>message\<close>, \<open>content\<close>, \<open>output_text\<close>): none of them is a
  built-in property of a string, array, number or boolean, so only an object can have
  it. Reading a property of \<open>undefined\<close> or \<open>null\<close> throws a TypeError.
\<close>

fun get_prop :: "jsval \<Rightarrow> string \<Rightarrow> exn + jsval" where
  "get_prop None k = Inl TypeError"
| "get_prop (Some JNull) k = Inl TypeError"
| "get_prop (Some (JObj kvs)) k = Inr (map_of kvs k)"
| "get_prop (Some v) k = Inr None"

text \<open>Indexed read \<open>v[0]\<close>: the first element of an array, the first unit of a string,
  the property \<open>"0"\<close> of an object.\<close>

fun elem0 :: "jsval \<Rightarrow> exn + jsval" where
  "elem0 None = Inl TypeError"
| "elem0 (Some JNull) = Inl TypeError"
| "elem0 (Some (JArr xs)) = Inr (case xs of [] \<Rightarrow> None | x # _ \<Rightarrow> Some x)"
| "elem0 (Some (JStr s)) = Inr (case s of [] \<Rightarrow> None | c # _ \<Rightarrow> Some (JStr [c]))"
| "elem0 (Some (JObj kvs)) = Inr (map_of kvs ''0'')"
| "elem0 (Some v) = Inr None"

text \<open>\<open>a || b\<close> with a defined right operand.\<close>

fun or_else :: "jsval \<Rightarrow> json \<Rightarrow> json" where
  "or_else None d = d"
| "or_else (Some v) d = (if truthy (Some v) then v else d)"

text \<open>
  \<open>String.prototype.trim\<close> removes white space and line terminators from both ends:
  U+0009..U+000D, U+0020, U+00A0, U+1680, U+2000..U+200A, U+2028, U+2029, U+202F,
  U+205F, U+3000 and U+FEFF, here in their UTF-8 encodings of one, two or three bytes.
\<close>

definition ws1 :: "char \<Rightarrow> bool" where
  "ws1 a = (a \<in> {CHR 0x09, CHR 0x0A, CHR 0x0B, CHR 0x0C, CHR 0x0D, CHR 0x20})"

definition ws2 :: "char \<Rightarrow> char \<Rightarrow> bool" where
  "ws2 a b = (a = CHR 0xC2 \<and> b = CHR 0xA0)"

definition ws3 :: "char \<Rightarrow> char \<Rightarrow> char \<Rightarrow> bool" where
  "ws3 a b c =
     ((a = CHR 0xE1 \<and> b = CHR 0x9A \<and> c = CHR 0x80) \<or>
      (a = CHR 0xE2 \<and> b = CHR 0x80 \<and>
         c \<in> {CHR 0x80, CHR 0x81, CHR 0x82, CHR 0x83, CHR 0x84, CHR 0x85, CHR 0x86,
              CHR 0x87, CHR 0x88, CHR 0x89, CHR 0x8A, CHR 0xA8, CHR 0xA9, CHR 0xAF}) \<or>
      (a = CHR 0xE2 \<and> b = CHR 0x81 \<and> c = CHR 0x9F) \<or>
      (a = CHR 0xE3 \<and> b = CHR 0x80 \<and> c = CHR 0x80) \<or>
      (a = CHR 0xEF \<and> b = CHR 0xBB \<and> c = CHR 0xBF))"

text \<open>\<open>strip False\<close> drops leading white space; \<open>strip True\<close> does the same on a
  reversed string, where the bytes of a code point come last byte first.\<close>

fun strip :: "bool \<Rightarrow> string \<Rightarrow> string" where
  "strip r (a # b # c # cs) =
     (if ws1 a then strip r (b # c # cs)
      else if (if r then ws2 b a else ws2 a b) then strip r (c # cs)
      else if (if r then ws3 c b a else ws3 a b c) then strip r cs
      else a # b # c # cs)"
| "strip r [a, b] =
     (if ws1 a then strip r [b]
      else if (if r then ws2 b a else ws2 a b) then []
      else [a, b])"
| "strip r [a] = (if ws1 a then [] else [a])"
| "strip r [] = []"

definition trim :: "string \<Rightarrow> string" where
  "trim s = rev (strip True (rev (strip False s)))"

text \<open>
  What is outside the repository is a parameter of the handlers: \<open>JSON.parse\<close>
  (\<open>None\<close> when it throws a SyntaxError), the clock, and \<open>fetch\<close>, a function
  from the prompt sent to the upstream outcome: \<open>fetch\<close> rejects, or it yields a
  response with a status and a body whose reading (\<open>response.text()\<close>,
  \<open>response.json()\<close>) gives the text or rejects (\<open>None\<close>). The full case mapping
  of Unicode is a parameter too (see \<open>toUpperCase\<close>). A handler returns its response
  together with the list of prompts it sent upstream, in order. What a handler writes
  to the console is not part of its result.
\<close>

datatype fetch_result = FetchFailed | HttpResponse nat "string option"

definition resp_ok :: "nat \<Rightarrow> bool" where
  "resp_ok st = (200 \<le> st \<and> st \<le> 299)"

record response =
  statusCode :: nat
  body :: json

text \<open>The helper \<open>json(body, status)\<close>; the \<open>Content-Type\<close> header it sets is the same
  on every response and is left out. \<open>body\<close> is the value given to
  \<open>JSON.stringify\<close>.\<close>

definition json_resp :: "json \<Rightarrow> nat \<Rightarrow> response" where
  "json_resp b st = \<lparr>statusCode = st, body = b\<rparr>"

text \<open>The chain \<open>data.choices && data.choices[0] && data.choices[0].message &&
  data.choices[0].message.content\<close>: the first falsy value, or the last one.\<close>

definition chat_content :: "json \<Rightarrow> exn + jsval" where
  "chat_content data =
     (case get_prop (Some data) ''choices'' of
        Inl e \<Rightarrow> Inl e
      | Inr choices \<Rightarrow>
          if \<not> truthy choices then Inr choices
          else (case elem0 choices of
             Inl e \<Rightarrow> Inl e
           | Inr c0 \<Rightarrow>
               if \<not> truthy c0 then Inr c0
               else (case get_prop c0 ''message'' of
                  Inl e \<Rightarrow> Inl e
                | Inr m \<Rightarrow> if \<not> truthy m then Inr m else get_prop m ''content'')))"

section \<open>The Netlify variant on the Chat Completions API\<close>

record event =
  httpMethod :: string
  ev_body :: "string option"

definition EXPIRY_DATE :: string where
  "EXPIRY_DATE = ''2026-04-30''"

definition N_expired_html :: string where
  \<open>N_expired_html =
   ''\<newline>'' @
   ''        <div class="expired-message">\<newline>'' @
   ''          <strong>This service has ended.</strong><br/>\<newline>'' @
   ''          Thank you for your interest in the 2026 Auspicious '' @
   ''Year Report.\<newline>'' @
   ''        </div>\<newline>'' @
   ''      ''\<close>

definition N_languageInstruction_zh :: string where
  \<open>N_languageInstruction_zh =
   ''Write the entire report in natural, fluent Simplified Chinese '' @
   ''suitable for readers in Singapore. Keep headings and structure '' @
   ''clear. IMPORTANT: In the 'Practical Dos & Don'ts for 2026' section, '' @
   ''keep the bullet labels beginning with 'Do:' and 'Don't:' in '' @
   ''English so the front-end can style them, but the rest of the '' @
   ''sentence can be in Chinese.''\<close>

definition N_languageInstruction_en :: string where
  \<open>N_languageInstruction_en =
   ''Write the entire report in English. In the 'Practical Dos & '' @
   ''Don'ts for 2026' section, each bullet should start with 'Do:' '' @
   ''or 'Don't:' so the front-end can colour them.''\<close>

definition N_prompt_pre :: string where
  \<open>N_prompt_pre =
   ''\<newline>'' @
   ''Date of birth: ''\<close>

definition N_prompt_mid :: string where
  \<open>N_prompt_mid =
   ''\<newline>'' @
   ''\<newline>'' @
   ''Please generate a personalised 2026 auspicious year report based '' @
   ''on this birth date using a blend of feng shui, astrology, and '' @
   ''numerology themes.\<newline>'' @
   ''\<newline>'' @
   ''Requirements:\<newline>'' @
   ''- Write in a warm, encouraging, and grounded tone.\<newline>'' @
   ''- Structure the report with clear HTML headings and paragraphs '' @
   ''<h2>, <h3>, <p>, <ul>, <li>.\<newline>'' @
   ''- Start with an overview of the general energy for 2026 for '' @
   ''this person.\<newline>'' @
   ''- Then include sections such as: Career & Wealth, Relationships '' @
   ''& Family, Health & Well-Being, Personal Growth & Opportunities.\<newline>'' @
   ''- Include a specific section titled: "Practical Dos & Don'ts '' @
   ''for 2026" as a bullet list.\<newline>'' @
   ''- Each bullet in that section must begin with "Do:" or "Don't:" '' @
   ''exactly, followed by the advice sentence.\<newline>'' @
   ''- Keep the length balanced: meaningful but not overly long, '' @
   ''suitable for a one-page reading.\<newline>'' @
   ''\<newline>'' @
   ''Language rule:\<newline>''\<close>

definition N_prompt_post :: string where
  \<open>N_prompt_post =
   ''\<newline>'' @
   ''    ''\<close>

definition N_fallback_html :: string where
  \<open>N_fallback_html =
   ''<p>Sorry, I could not generate your report at this time. Please '' @
   ''try again later.</p>''\<close>

definition N_languageInstruction :: "string \<Rightarrow> string" where
  "N_languageInstruction lang =
     (if lang = ''zh'' then N_languageInstruction_zh else N_languageInstruction_en)"

definition N_prompt :: "string \<Rightarrow> string \<Rightarrow> string" where
  "N_prompt dob lang =
     trim (N_prompt_pre @ dob @ N_prompt_mid @ N_languageInstruction lang @ N_prompt_post)"

definition N_error :: "string \<Rightarrow> json" where
  "N_error msg = JObj [(''error'', JStr msg)]"

text \<open>Lines 88 to 140: the upstream call and the mapping of its outcome. On a
  non-success status the handler awaits \<open>response.text()\<close> before it answers; when
  that read rejects, the exception reaches the \<open>catch\<close>.\<close>

definition N_generate ::
  "(string \<Rightarrow> json option) \<Rightarrow> (string \<Rightarrow> fetch_result) \<Rightarrow> string
     \<Rightarrow> (exn + response) \<times> string list" where
  \<open>N_generate parse fetch prompt =
     (case fetch prompt of
        FetchFailed \<Rightarrow> (Inl NetworkError, [prompt])
      | HttpResponse st b \<Rightarrow>
          if \<not> resp_ok st then
            (case b of
               None \<Rightarrow> (Inl NetworkError, [prompt])
             | Some text \<Rightarrow>
                (Inr (json_resp (N_error
                   (''OpenAI API error. Please try again later or '' @
                    ''contact the site owner.'')) 502), [prompt]))
          else
            (case b of
               None \<Rightarrow> (Inl NetworkError, [prompt])
             | Some raw \<Rightarrow>
                (case parse raw of
                   None \<Rightarrow> (Inl SyntaxError, [prompt])
                 | Some data \<Rightarrow>
                    (case chat_content data of
                       Inl e \<Rightarrow> (Inl e, [prompt])
                     | Inr message \<Rightarrow>
                        (Inr (json_resp
                           (JObj [(''html'', or_else message (JStr N_fallback_html))]) 200),
                         [prompt])))))\<close>

text \<open>Lines 52 to 86: body parsing, the check \<open>!dob || typeof dob !== "string"\<close> and
  the prompt.\<close>

definition N_invalid_dob :: response where
  \<open>N_invalid_dob =
     json_resp (N_error (''Missing or invalid 'dob'. Please provide DDMMMYYYY.'')) 400\<close>

definition N_process ::
  "(string \<Rightarrow> json option) \<Rightarrow> (string \<Rightarrow> fetch_result) \<Rightarrow> event
     \<Rightarrow> (exn + response) \<times> string list" where
  \<open>N_process parse fetch ev =
     (case parse (or_empty_object (ev_body ev)) of
        None \<Rightarrow> (Inl SyntaxError, [])
      | Some v \<Rightarrow>
         (case get_prop (Some v) ''dob'' of
            Inl e \<Rightarrow> (Inl e, [])
          | Inr dob \<Rightarrow>
             (case get_prop (Some v) ''language'' of
                Inl e \<Rightarrow> (Inl e, [])
              | Inr language \<Rightarrow>
                 (let lang = (if language = Some (JStr ''zh'') then ''zh'' else ''en'') in
                  (case dob of
                     Some (JStr d) \<Rightarrow>
                       if d = [] then (Inr N_invalid_dob, [])
                       else N_generate parse fetch (N_prompt d lang)
                   | _ \<Rightarrow> (Inr N_invalid_dob, []))))))\<close>

text \<open>
  The body of the \<open>try\<close> block. \<open>key\<close> is the module constant \<open>OPENAI_API_KEY\<close>,
  \<open>today\<close> is \<open>new Date().toISOString().slice(0, 10)\<close>; the comparison with
  \<open>EXPIRY_DATE\<close> is the lexicographic one of strings.
\<close>

definition N_try ::
  "(string \<Rightarrow> json option) \<Rightarrow> string option \<Rightarrow> (string \<Rightarrow> fetch_result) \<Rightarrow> string \<Rightarrow> event
     \<Rightarrow> (exn + response) \<times> string list" where
  \<open>N_try parse key fetch today ev =
     (if httpMethod ev \<noteq> ''POST'' then
        (Inr (json_resp (N_error ''Method not allowed'') 405), [])
      else if \<not> truthy_str key then
        (Inr (json_resp (N_error ''Server configuration error: API key not set.'') 500), [])
      else if today > EXPIRY_DATE then
        (Inr (json_resp (JObj [(''html'', JStr N_expired_html)]) 200), [])
      else N_process parse fetch ev)\<close>

text \<open>The \<open>catch\<close> clause turns every exception into the 500 response.\<close>

definition N_handler ::
  "(string \<Rightarrow> json option) \<Rightarrow> string option \<Rightarrow> (string \<Rightarrow> fetch_result) \<Rightarrow> string \<Rightarrow> event
     \<Rightarrow> response \<times> string list" where
  "N_handler parse key fetch today ev =
     (case N_try parse key fetch today ev of
        (Inl e, calls) \<Rightarrow>
          (json_resp (N_error ''Unexpected server error. Please try again later.'') 500, calls)
      | (Inr r, calls) \<Rightarrow> (r, calls))"

section \<open>The Netlify variant on the Responses API\<close>

text \<open>The process environment: each variable is a string or unset.\<close>

record env =
  OPENAI_API_KEY :: "string option"
  EXPIRY_DATE_var :: "string option"
  SIGN_OFF_HTML :: "string option"

definition EXPIRY_MESSAGE :: string where
  \<open>EXPIRY_MESSAGE =
   ''This service has ended. Thank you for your interest.''\<close>

text \<open>\<open>/^\d{2}[A-Z]{3}\d{4}$/.test(dob)\<close>: exactly nine characters, two ASCII digits,
  three ASCII capitals, four ASCII digits.\<close>

definition is_digit :: "char \<Rightarrow> bool" where
  "is_digit c = (CHR ''0'' \<le> c \<and> c \<le> CHR ''9'')"

definition is_upper :: "char \<Rightarrow> bool" where
  "is_upper c = (CHR ''A'' \<le> c \<and> c \<le> CHR ''Z'')"

definition isValidDOB :: "string \<Rightarrow> bool" where
  "isValidDOB dob =
     (length dob = 9 \<and> list_all is_digit (take 2 dob) \<and>
      list_all is_upper (take 3 (drop 2 dob)) \<and> list_all is_digit (drop 5 dob))"

definition getDefaultSignOff :: string where
  \<open>getDefaultSignOff =
   ''\<newline>'' @
   ''  <div class="signoff">\<newline>'' @
   ''    '' @
   [CHR 0xE2, CHR 0x80, CHR 0x94] @
   '' <strong>Prepared by Mike Lim</strong>, CEA Reg No. R026708F<br/>\<newline>'' @
   ''    '' @
   [CHR 0xF0, CHR 0x9F, CHR 0x93, CHR 0x9E] @
   '' +65 9692 9209<br/>\<newline>'' @
   ''    <strong>SGHomeCompass | Your Chapter in Home Transition</strong><br/>\<newline>'' @
   ''    '' @
   [CHR 0xF0, CHR 0x9F, CHR 0x94, CHR 0x97] @
   '' <a href="https://www.youtube.com/@SGHomeCompass" target="_blank" '' @
   ''rel="noopener">YouTube</a>  |  \<newline>'' @
   ''       <a href="https://www.instagram.com/sghomecompass/" target="_blank" '' @
   ''rel="noopener">Instagram</a>\<newline>'' @
   ''  </div>''\<close>

definition R_prompt_pre :: string where
  \<open>R_prompt_pre =
   ''You are generating a concise, upbeat 2026 Auspicious Report '' @
   ''for entertainment only.\<newline>'' @
   ''User supplied a date of birth: ''\<close>

definition R_prompt_post :: string where
  \<open>R_prompt_post =
   ''. Use it to personalize lightly via zodiac/numerology style '' @
   ''cues.\<newline>'' @
   ''Singapore audience; keep language clear, non-mystical, and avoid '' @
   ''absolutes.\<newline>'' @
   ''Length target: 170'' @
   [CHR 0xE2, CHR 0x80, CHR 0x93] @
   ''220 words.\<newline>'' @
   ''\<newline>'' @
   ''Return ONLY HTML with these sections (use <h3> and <p> tags):\<newline>'' @
   ''<h3>Overall Outlook (2026)</h3>\<newline>'' @
   ''... 2'' @
   [CHR 0xE2, CHR 0x80, CHR 0x93] @
   ''3 sentences.\<newline>'' @
   ''<h3>Career & Wealth</h3>\<newline>'' @
   ''... 3'' @
   [CHR 0xE2, CHR 0x80, CHR 0x93] @
   ''4 sentences with one practical focus month.\<newline>'' @
   ''<h3>Relationships & Network</h3>\<newline>'' @
   ''... 2'' @
   [CHR 0xE2, CHR 0x80, CHR 0x93] @
   ''3 sentences.\<newline>'' @
   ''<h3>Health & Energy</h3>\<newline>'' @
   ''... 2'' @
   [CHR 0xE2, CHR 0x80, CHR 0x93] @
   ''3 sentences with one sustainable habit.\<newline>'' @
   ''<h3>Home & Property (Practical Feng Shui Angle)</h3>\<newline>'' @
   ''... 3'' @
   [CHR 0xE2, CHR 0x80, CHR 0x93] @
   ''4 sentences, include a simple declutter/refresh tip and '' @
   ''a month window.\<newline>'' @
   ''<h3>Lucky Anchor</h3>\<newline>'' @
   ''... 1 colour or element + one weekly reset ritual.\<newline>'' @
   ''\<newline>'' @
   ''Rules:\<newline>'' @
   ''- Do NOT request or store personal data beyond the DOB given.\<newline>'' @
   ''- Avoid medical/financial claims; use '' @
   [CHR 0xE2, CHR 0x80, CHR 0x9C] @
   ''tendencies'' @
   [CHR 0xE2, CHR 0x80, CHR 0x9D] @
   '' and '' @
   [CHR 0xE2, CHR 0x80, CHR 0x9C] @
   ''energy'' @
   [CHR 0xE2, CHR 0x80, CHR 0x9D] @
   '' '' @
   ''language.\<newline>'' @
   ''- Keep it positive, specific, and mobile-friendly paragraphs.\<newline>''\<close>

definition buildPrompt :: "string \<Rightarrow> string" where
  "buildPrompt dob = R_prompt_pre @ dob @ R_prompt_post"

text \<open>
  \<open>String.prototype.toUpperCase\<close>. On a string of ASCII characters it maps the
  letters a to z to A to Z and leaves the rest. On a string with a code point outside
  ASCII it is the case mapping of Unicode, which is outside the repository: the
  parameter \<open>upper\<close>, about which nothing is assumed.
\<close>

definition upper_char :: "char \<Rightarrow> char" where
  "upper_char c =
     (if CHR ''a'' \<le> c \<and> c \<le> CHR ''z'' then char_of (of_char c - (32::nat)) else c)"

definition ascii :: "string \<Rightarrow> bool" where
  "ascii s = list_all (\<lambda>c. of_char c < (128::nat)) s"

definition toUpperCase :: "(string \<Rightarrow> string) \<Rightarrow> string \<Rightarrow> string" where
  "toUpperCase upper s = (if ascii s then map upper_char s else upper s)"

text \<open>
  The conversion of a value to a string that a template literal applies. An array is
  joined with commas, \<open>null\<close> elements as the empty string. An object is
  \<open>[object Object]\<close>, unless it has a key \<open>toString\<close> of its own: that value,
  coming from JSON, is not a function, and the conversion throws a TypeError.
\<close>

fun to_String :: "json \<Rightarrow> exn + string" and join_elems :: "json list \<Rightarrow> exn + string" where
  "to_String (JStr s) = Inr s"
| "to_String (JNum n) = Inr n"
| "to_String (JBool b) = Inr (if b then ''true'' else ''false'')"
| "to_String JNull = Inr ''null''"
| "to_String (JObj kvs) =
     (if map_of kvs ''toString'' = None then Inr ''[object Object]'' else Inl TypeError)"
| "to_String (JArr xs) = join_elems xs"
| "join_elems [] = Inr []"
| "join_elems [x] = (if x = JNull then Inr [] else to_String x)"
| "join_elems (x # y # ys) =
     (case (if x = JNull then Inr [] else to_String x) of
        Inl e \<Rightarrow> Inl e
      | Inr s \<Rightarrow>
         (case join_elems (y # ys) of
            Inl e \<Rightarrow> Inl e
          | Inr t \<Rightarrow> Inr (s @ '','' @ t)))"

text \<open>\<open>data.output_text || (data.choices && ... .content) || ""\<close>\<close>

definition extract_text :: "json \<Rightarrow> exn + json" where
  "extract_text data =
     (case get_prop (Some data) ''output_text'' of
        Inl e \<Rightarrow> Inl e
      | Inr ot \<Rightarrow>
          if truthy ot then Inr (or_else ot (JStr []))
          else (case chat_content data of
             Inl e \<Rightarrow> Inl e
           | Inr c \<Rightarrow> Inr (or_else c (JStr []))))"

definition callOpenAI ::
  "(string \<Rightarrow> json option) \<Rightarrow> env \<Rightarrow> (string \<Rightarrow> fetch_result) \<Rightarrow> string
     \<Rightarrow> (exn + json) \<times> string list" where
  "callOpenAI parse e fetch prompt =
     (if \<not> truthy_str (OPENAI_API_KEY e) then (Inl MissingApiKey, [])
      else (case fetch prompt of
         FetchFailed \<Rightarrow> (Inl NetworkError, [prompt])
       | HttpResponse st b \<Rightarrow>
           (case b of
              None \<Rightarrow> (Inl NetworkError, [prompt])
            | Some raw \<Rightarrow>
                if \<not> resp_ok st then (Inl (ApiError st raw), [prompt])
                else (case parse raw of
                   None \<Rightarrow> (Inl SyntaxError, [prompt])
                 | Some data \<Rightarrow> (extract_text data, [prompt])))))"

definition R_message :: "string \<Rightarrow> json" where
  "R_message msg = JObj [(''message'', JStr msg)]"

text \<open>\<open>(body.dob || "").toUpperCase().trim()\<close>: calling \<open>toUpperCase\<close> on a value that
  is not a string throws a TypeError.\<close>

definition R_dob :: "(string \<Rightarrow> string) \<Rightarrow> json \<Rightarrow> exn + string" where
  "R_dob upper b =
     (case get_prop (Some b) ''dob'' of
        Inl e \<Rightarrow> Inl e
      | Inr d \<Rightarrow>
         (case or_else d (JStr []) of
            JStr s \<Rightarrow> Inr (trim (toUpperCase upper s))
          | _ \<Rightarrow> Inl TypeError))"

definition R_signOff :: "env \<Rightarrow> string" where
  "R_signOff e =
     (case SIGN_OFF_HTML e of
        None \<Rightarrow> getDefaultSignOff
      | Some s \<Rightarrow> if s = [] then getDefaultSignOff else s)"

definition R_process ::
  "(string \<Rightarrow> json option) \<Rightarrow> (string \<Rightarrow> string) \<Rightarrow> env \<Rightarrow> (string \<Rightarrow> fetch_result) \<Rightarrow> event
     \<Rightarrow> (exn + response) \<times> string list" where
  \<open>R_process parse upper e fetch ev =
     (case parse (or_empty_object (ev_body ev)) of
        None \<Rightarrow> (Inl SyntaxError, [])
      | Some b \<Rightarrow>
         (case R_dob upper b of
            Inl x \<Rightarrow> (Inl x, [])
          | Inr dob \<Rightarrow>
             if \<not> isValidDOB dob then
               (Inr (json_resp (R_message ''Please use DDMMMYYYY, e.g., 08DEC1977.'') 400), [])
             else
               (case callOpenAI parse e fetch (buildPrompt dob) of
                  (Inl x, calls) \<Rightarrow> (Inl x, calls)
                | (Inr html, calls) \<Rightarrow>
                   (case to_String html of
                      Inl x \<Rightarrow> (Inl x, calls)
                    | Inr h \<Rightarrow>
                       (Inr (json_resp (JObj [(''resultHtml'',
                           JStr (h @ ''\<newline>'' @ R_signOff e))]) 200),
                        calls)))))\<close>

text \<open>
  \<open>expiry && new Date() > expiry\<close>: \<open>Date_parse\<close> is \<open>new Date(s).getTime()\<close> in
  milliseconds, \<open>None\<close> for an invalid date, whose comparison with any instant is
  false; \<open>now\<close> is the clock.
\<close>

definition R_expired :: "(string \<Rightarrow> int option) \<Rightarrow> env \<Rightarrow> int \<Rightarrow> bool" where
  "R_expired Date_parse e now =
     (truthy_str (EXPIRY_DATE_var e) \<and>
      (case EXPIRY_DATE_var e of
         None \<Rightarrow> False
       | Some s \<Rightarrow> (case Date_parse s of None \<Rightarrow> False | Some t \<Rightarrow> now > t)))"

definition R_try ::
  "(string \<Rightarrow> json option) \<Rightarrow> (string \<Rightarrow> string) \<Rightarrow> (string \<Rightarrow> int option) \<Rightarrow> env \<Rightarrow> (string \<Rightarrow> fetch_result)
     \<Rightarrow> int \<Rightarrow> event \<Rightarrow> (exn + response) \<times> string list" where
  \<open>R_try parse upper Date_parse e fetch now ev =
     (if httpMethod ev \<noteq> ''POST'' then
        (Inr (json_resp (R_message ''Use POST /api/fortune'') 405), [])
      else if R_expired Date_parse e now then
        (Inr (json_resp (JObj [(''resultHtml'', JStr (''<p>'' @ EXPIRY_MESSAGE @ ''</p>''))]) 200),
         [])
      else R_process parse upper e fetch ev)\<close>

definition R_handler ::
  "(string \<Rightarrow> json option) \<Rightarrow> (string \<Rightarrow> string) \<Rightarrow> (string \<Rightarrow> int option) \<Rightarrow> env \<Rightarrow> (string \<Rightarrow> fetch_result)
     \<Rightarrow> int \<Rightarrow> event \<Rightarrow> response \<times> string list" where
  "R_handler parse upper Date_parse e fetch now ev =
     (case R_try parse upper Date_parse e fetch now ev of
        (Inl x, calls) \<Rightarrow>
          (json_resp (R_message ''Server error. Please try again later.'') 500, calls)
      | (Inr r, calls) \<Rightarrow> (r, calls))"

section \<open>The Vercel variant\<close>

text \<open>
  \<open>req.body\<close> is whatever the runtime put there (\<open>undefined\<close>, a string, or a value
  it parsed already); the request stream delivers the raw data or fails.
\<close>

datatype stream_result = StreamData string | StreamError

record request =
  req_method :: string
  req_body :: jsval
  req_stream :: stream_result

text \<open>The fallback of \<open>parseJsonBody\<close>: the manual read of the request stream.\<close>

definition read_stream :: "(string \<Rightarrow> json option) \<Rightarrow> stream_result \<Rightarrow> exn + json" where
  "read_stream parse st =
     (case st of
        StreamError \<Rightarrow> Inl NetworkError
      | StreamData d \<Rightarrow>
          if d = [] then Inr (JObj [])
          else (case parse d of None \<Rightarrow> Inl SyntaxError | Some v \<Rightarrow> Inr v))"

definition parseJsonBody :: "(string \<Rightarrow> json option) \<Rightarrow> request \<Rightarrow> exn + json" where
  "parseJsonBody parse req =
     (case req_body req of
        None \<Rightarrow> read_stream parse (req_stream req)
      | Some b \<Rightarrow>
          if truthy (Some b) then
            (case b of
               JStr s \<Rightarrow> (case parse (or_empty_object (Some s)) of
                            None \<Rightarrow> Inl SyntaxError | Some v \<Rightarrow> Inr v)
             | _ \<Rightarrow> Inr b)
          else read_stream parse (req_stream req))"

definition V_EXPIRY_DATE :: string where
  "V_EXPIRY_DATE = ''2026-03-31''"

definition V_languageInstruction_zh :: string where
  \<open>V_languageInstruction_zh =
   ''Write the entire report in natural, fluent Simplified Chinese '' @
   ''suitable for readers in Singapore. Keep the HTML structure and '' @
   ''section headings consistent.''\<close>

definition V_languageInstruction_en :: string where
  \<open>V_languageInstruction_en =
   ''Write the entire report in English. Keep the HTML structure '' @
   ''and section headings consistent.''\<close>

definition V_sections_pre :: string where
  \<open>V_sections_pre =
   ''\<newline>'' @
   ''Please generate a personalised 2026 Auspicious Year Report for '' @
   ''the following person.\<newline>'' @
   ''\<newline>'' @
   ''Date of birth: ''\<close>

definition V_sections_post :: string where
  \<open>V_sections_post =
   ''\<newline>'' @
   ''\<newline>'' @
   ''Use a warm, encouraging, grounded tone. Avoid fatalistic or '' @
   ''overly superstitious wording. Keep it modern and practical.\<newline>'' @
   ''\<newline>'' @
   ''Structure the report using HTML with the following sections, '' @
   ''in this order:\<newline>'' @
   ''\<newline>'' @
   ''1) Overview\<newline>'' @
   ''2) Career and Wealth\<newline>'' @
   ''3) Family and Relationships\<newline>'' @
   ''4) Energy and Health\<newline>'' @
   ''5) Personal Growth and Hurdles\<newline>'' @
   ''6) Practical Dos & Don'ts for 2026  (this must be a bullet list)\<newline>'' @
   ''\<newline>'' @
   ''HTML requirements:\<newline>'' @
   ''- Use <h2> or <h3> for section headings.\<newline>'' @
   ''- Use <p> for paragraphs.\<newline>'' @
   ''- For the "Practical Dos & Don'ts for 2026" section, use <ul> '' @
   ''and <li>.\<newline>'' @
   ''- Each bullet in that section must start with "Do:" or "Don't:" '' @
   ''exactly, followed by the advice sentence.\<newline>'' @
   ''- Overall length should feel like a one-page reading: meaningful '' @
   ''but not overly long.\<newline>''\<close>

definition V_fallback_html :: string where
  \<open>V_fallback_html =
   ''<p>Sorry, the report could not be generated. Please try again '' @
   ''later.</p>''\<close>

definition V_languageInstruction :: "string \<Rightarrow> string" where
  "V_languageInstruction lang =
     (if lang = ''zh'' then V_languageInstruction_zh else V_languageInstruction_en)"

definition V_sectionsInstruction :: "string \<Rightarrow> string" where
  "V_sectionsInstruction dob = V_sections_pre @ dob @ V_sections_post"

definition V_prompt :: "string \<Rightarrow> string \<Rightarrow> string" where
  "V_prompt dob lang =
     V_languageInstruction lang @ ''\<newline>\<newline>'' @ V_sectionsInstruction dob"

text \<open>Optional chaining \<open>v?.k\<close> and \<open>v?.[0]\<close>: \<open>undefined\<close> on \<open>undefined\<close> or
  \<open>null\<close>, never an exception.\<close>

definition opt_prop :: "jsval \<Rightarrow> string \<Rightarrow> jsval" where
  "opt_prop v k = (case get_prop v k of Inl e \<Rightarrow> None | Inr r \<Rightarrow> r)"

definition opt_elem0 :: "jsval \<Rightarrow> jsval" where
  "opt_elem0 v = (case elem0 v of Inl e \<Rightarrow> None | Inr r \<Rightarrow> r)"

text \<open>\<open>data?.choices?.[0]?.message?.content?.trim()\<close>: a content that is neither a
  string nor \<open>undefined\<close>/\<open>null\<close> has no \<open>trim\<close> method, and the call throws.\<close>

definition V_content :: "json \<Rightarrow> exn + jsval" where
  "V_content data =
     (case opt_prop (opt_prop (opt_elem0 (opt_prop (Some data) ''choices'')) ''message'') ''content'' of
        None \<Rightarrow> Inr None
      | Some JNull \<Rightarrow> Inr None
      | Some (JStr s) \<Rightarrow> Inr (Some (JStr (trim s)))
      | Some v \<Rightarrow> Inl TypeError)"

definition V_error :: "string \<Rightarrow> json" where
  "V_error msg = JObj [(''error'', JStr msg)]"

definition V_generate ::
  "(string \<Rightarrow> json option) \<Rightarrow> (string \<Rightarrow> fetch_result) \<Rightarrow> string
     \<Rightarrow> response \<times> string list" where
  \<open>V_generate parse fetch prompt =
     (let unexpected = json_resp (V_error ''Unexpected server error. Please try again later.'') 500
      in (case fetch prompt of
        FetchFailed \<Rightarrow> (unexpected, [prompt])
      | HttpResponse st b \<Rightarrow>
          if \<not> resp_ok st then
            (json_resp (V_error
               (''OpenAI API error. Please try again later or contact the site '' @
                ''owner if this persists.'')) 502, [prompt])
          else
            (case b of
               None \<Rightarrow> (unexpected, [prompt])
             | Some raw \<Rightarrow>
                (case parse raw of
                   None \<Rightarrow> (unexpected, [prompt])
                 | Some data \<Rightarrow>
                    (case V_content data of
                       Inl x \<Rightarrow> (unexpected, [prompt])
                     | Inr c \<Rightarrow>
                        (json_resp (JObj [(''html'', or_else c (JStr V_fallback_html))]) 200,
                         [prompt]))))))\<close>

text \<open>Lines 67 to 116. Reading \<open>body.dob\<close> happens outside every \<open>try\<close>: on a body
  that parsed to \<open>null\<close> the handler rejects (\<open>Inl\<close>) without a response.\<close>

definition V_process ::
  "(string \<Rightarrow> json option) \<Rightarrow> (string \<Rightarrow> fetch_result) \<Rightarrow> request
     \<Rightarrow> (exn + response) \<times> string list" where
  \<open>V_process parse fetch req =
     (case parseJsonBody parse req of
        Inl x \<Rightarrow> (Inr (json_resp (V_error ''Invalid JSON body.'') 400), [])
      | Inr b \<Rightarrow>
         (case get_prop (Some b) ''dob'' of
            Inl x \<Rightarrow> (Inl x, [])
          | Inr d \<Rightarrow>
             (let dob = (case d of Some (JStr s) \<Rightarrow> trim s | _ \<Rightarrow> []);
                  lang = (if opt_prop (Some b) ''language'' = Some (JStr ''zh'') then ''zh'' else ''en'')
              in if dob = [] then
                   (Inr (json_resp (V_error
                      (''Missing or invalid 'dob'. Please provide DDMMMYYYY '' @
                       ''(e.g. 08DEC1977).'')) 400), [])
                 else (case V_generate parse fetch (V_prompt dob lang) of
                         (r, calls) \<Rightarrow> (Inr r, calls)))))\<close>

text \<open>\<open>Date_parse\<close> is \<open>new Date(s).getTime()\<close>, \<open>None\<close> when it is NaN.\<close>

definition V_handler ::
  "(string \<Rightarrow> json option) \<Rightarrow> (string \<Rightarrow> int option) \<Rightarrow> string option
     \<Rightarrow> (string \<Rightarrow> fetch_result) \<Rightarrow> int \<Rightarrow> request \<Rightarrow> (exn + response) \<times> string list" where
  \<open>V_handler parse Date_parse key fetch now req =
     (if req_method req \<noteq> ''POST'' then
        (Inr (json_resp (V_error ''Method not allowed. Use POST.'') 405), [])
      else if \<not> truthy_str key then
        (Inr (json_resp (V_error ''Server misconfigured: missing OPENAI_API_KEY.'') 500), [])
      else (case Date_parse (V_EXPIRY_DATE @ ''T23:59:59Z'') of
         None \<Rightarrow> V_process parse fetch req
       | Some expiry \<Rightarrow>
           if now > expiry then
             (Inr (json_resp (V_error
                (''This 2026 Auspicious Report campaign has ended. Please check '' @
                 ''back for future editions.'')) 410), [])
           else V_process parse fetch req))\<close>

section \<open>Notions used in the statements\<close>

text \<open>The Vercel variant's expiry test: an invalid date never expires.\<close>

definition V_expired :: "(string \<Rightarrow> int option) \<Rightarrow> int \<Rightarrow> bool" where
  "V_expired Date_parse now =
     (case Date_parse (V_EXPIRY_DATE @ ''T23:59:59Z'') of None \<Rightarrow> False | Some t \<Rightarrow> now > t)"

text \<open>A byte that cannot begin (\<open>stop_fwd\<close>) or end (\<open>stop_rev\<close>) a white space
  code point.\<close>

definition stop_fwd :: "char \<Rightarrow> bool" where
  "stop_fwd a = (\<not> ws1 a \<and> a \<notin> {CHR 0xC2, CHR 0xE1, CHR 0xE2, CHR 0xE3, CHR 0xEF})"

definition stop_rev :: "char \<Rightarrow> bool" where
  "stop_rev a = (\<not> ws1 a \<and> a \<notin> {CHR 0xA0, CHR 0x80, CHR 0x81, CHR 0x82, CHR 0x83, CHR 0x84,
     CHR 0x85, CHR 0x86, CHR 0x87, CHR 0x88, CHR 0x89, CHR 0x8A, CHR 0xA8, CHR 0xA9, CHR 0xAF,
     CHR 0x9F, CHR 0xBF})"

text \<open>The fixed text before and after the slot of the date of birth in each prompt.\<close>

definition N_head :: string where
  "N_head = ''Date of birth: ''"

definition N_tail :: "string \<Rightarrow> string" where
  "N_tail lang = N_prompt_mid @ N_languageInstruction lang"

definition V_head :: "string \<Rightarrow> string" where
  "V_head lang = V_languageInstruction lang @ ''\<newline>\<newline>'' @ V_sections_pre"

text \<open>The number of positions of \<open>s\<close> at which \<open>n\<close> occurs.\<close>

fun occurrences :: "string \<Rightarrow> string \<Rightarrow> nat" where
  "occurrences n [] = (if n = [] then 1 else 0)"
| "occurrences n (c # cs) = (if prefix n (c # cs) then 1 else 0) + occurrences n cs"

text \<open>A position where a text of the form two digits, three capitals, four digits
  begins, and the number of such positions.\<close>

fun dob_shaped :: "string \<Rightarrow> bool" where
  "dob_shaped (a # b # c # d # e # f # g # h # i # rest) =
     (if is_digit a then
        (if is_digit b then
           (if is_upper c then
              (if is_upper d then
                 (if is_upper e then
                    (if is_digit f then
                       (if is_digit g then
                          (if is_digit h then is_digit i else False)
                        else False)
                     else False)
                  else False)
               else False)
            else False)
         else False)
      else False)"
| "dob_shaped xs = False"

fun shaped_positions :: "string \<Rightarrow> nat" where
  "shaped_positions [] = 0"
| "shaped_positions (c # cs) = (if dob_shaped (c # cs) then 1 else 0) + shaped_positions cs"

text \<open>The two shapes of an upstream response: the text under \<open>output_text\<close>, and
  the content under \<open>choices[0].message.content\<close>.\<close>

definition direct_text :: "json \<Rightarrow> jsval" where
  "direct_text data = (case data of JObj kvs \<Rightarrow> map_of kvs ''output_text'' | _ \<Rightarrow> None)"

definition nested_content :: "json \<Rightarrow> jsval" where
  "nested_content data =
     (case data of
        JObj kvs \<Rightarrow>
          (case map_of kvs ''choices'' of
             Some (JArr (JObj cs # rest)) \<Rightarrow>
               (case map_of cs ''message'' of
                  Some (JObj ms) \<Rightarrow> map_of ms ''content''
                | _ \<Rightarrow> None)
           | _ \<Rightarrow> None)
      | _ \<Rightarrow> None)"

text \<open>A value that is a string, or falsy.\<close>

definition string_or_falsy :: "jsval \<Rightarrow> bool" where
  "string_or_falsy v = (case v of Some (JStr s) \<Rightarrow> True | _ \<Rightarrow> \<not> truthy v)"

section \<open>A sample environment\<close>

text \<open>
  Concrete values for the parameters, used where a statement is evaluated at an input:
  \<open>sample_parse\<close> agrees with \<open>JSON.parse\<close> on the texts listed and throws on
  every other text (of which only \<open>{\<close> and \<open>upstream says no\<close>, both malformed
  JSON, are used); \<open>sample_Date_parse\<close> agrees with \<open>Date\<close> on the two dates
  listed; \<open>sample_upper\<close> stands for the case mapping of Unicode, which is applied to
  no string below, all of them being ASCII.
\<close>

definition sample_parse :: "string \<Rightarrow> json option" where
  \<open>sample_parse = map_of
     [(''{}'', JObj []),
      (''{"dob":"08DEC1977","language":"zh"}'',
         JObj [(''dob'', JStr ''08DEC1977''), (''language'', JStr ''zh'')]),
      (''{"dob":"08DEC1977"}'', JObj [(''dob'', JStr ''08DEC1977'')]),
      (''{"dob":123}'', JObj [(''dob'', JNum ''123'')]),
      (''{"dob":"2026"}'', JObj [(''dob'', JStr ''2026'')]),
      (''{"dob":"   "}'', JObj [(''dob'', JStr ''   '')]),
      (''{"output_text":"<p>ok</p>"}'', JObj [(''output_text'', JStr ''<p>ok</p>'')]),
      (''{"choices":[{"message":{"content":"<p>ok</p>"}}]}'',
         JObj [(''choices'', JArr [JObj [(''message'', JObj [(''content'', JStr ''<p>ok</p>'')])]])]),
      (''{"choices":[{"message":{"content":42}}]}'',
         JObj [(''choices'', JArr [JObj [(''message'', JObj [(''content'', JNum ''42'')])]])]),
      (''{"choices":[]}'', JObj [(''choices'', JArr [])])]\<close>

definition sample_Date_parse :: "string \<Rightarrow> int option" where
  "sample_Date_parse = map_of
     [(''2026-03-31T23:59:59Z'', 1775001599000), (''2026-04-30'', 1777507200000)]"

definition no_Date_parse :: "string \<Rightarrow> int option" where
  "no_Date_parse s = None"

definition sample_upper :: "string \<Rightarrow> string" where
  "sample_upper s = s"

definition fetch_reply :: "nat \<Rightarrow> string \<Rightarrow> string \<Rightarrow> fetch_result" where
  "fetch_reply st raw prompt = HttpResponse st (Some raw)"

definition post :: "string option \<Rightarrow> event" where
  "post b = \<lparr>httpMethod = ''POST'', ev_body = b\<rparr>"

definition vpost :: "jsval \<Rightarrow> string \<Rightarrow> request" where
  "vpost b d = \<lparr>req_method = ''POST'', req_body = b, req_stream = StreamData d\<rparr>"

definition sample_env :: env where
  "sample_env = \<lparr>OPENAI_API_KEY = Some ''sk-test'', EXPIRY_DATE_var = Some ''2026-04-30'',
     SIGN_OFF_HTML = None\<rparr>"

definition direct_sample :: json where
  "direct_sample = JObj [(''output_text'', JStr ''<p>ok</p>'')]"

definition nested_sample :: json where
  "nested_sample =
     JObj [(''choices'', JArr [JObj [(''message'', JObj [(''content'', JStr ''<p>ok</p>'')])]])]"

section \<open>Auxiliary facts\<close>

subsection \<open>Trimming\<close>

lemma strip_ws1:
  assumes "ws1 a"
  shows "strip r (a # xs) = strip r xs"
proof (cases xs)
  case Nil
  then show ?thesis using assms by simp
next
  case (Cons b ys)
  then show ?thesis using assms by (cases ys) simp_all
qed

lemma strip_stop_fwd:
  assumes "stop_fwd a"
  shows "strip False (a # xs) = a # xs"
proof (cases xs)
  case Nil
  then show ?thesis using assms by (simp add: stop_fwd_def)
next
  case (Cons b ys)
  then show ?thesis using assms by (cases ys) (auto simp add: stop_fwd_def ws2_def ws3_def)
qed

lemma strip_stop_rev:
  assumes "stop_rev a"
  shows "strip True (a # xs) = a # xs"
proof (cases xs)
  case Nil
  then show ?thesis using assms by (simp add: stop_rev_def)
next
  case (Cons b ys)
  then show ?thesis using assms by (cases ys) (auto simp add: stop_rev_def ws2_def ws3_def)
qed

lemma strip_all_ws: "list_all ws1 l \<Longrightarrow> strip r (l @ xs) = strip r xs"
  by (induction l) (simp_all add: strip_ws1)

lemma trim_core:
  assumes "list_all ws1 l" and "list_all ws1 r" and "stop_fwd a" and "stop_rev z"
  shows "trim (l @ a # m @ z # r) = a # m @ [z]"
proof -
  have "strip False (l @ a # m @ z # r) = a # m @ z # r"
    using assms(1,3) by (simp add: strip_all_ws strip_stop_fwd)
  moreover have "rev (a # m @ z # r) = rev r @ z # rev m @ [a]"
    by simp
  moreover have "strip True (rev r @ z # rev m @ [a]) = z # rev m @ [a]"
    using assms(2,4) by (simp add: strip_all_ws strip_stop_rev)
  ultimately show ?thesis
    by (simp add: trim_def)
qed

lemma N_li_last: "N_languageInstruction lang = butlast (N_languageInstruction lang) @ ''.''"
proof -
  have "N_languageInstruction lang \<noteq> [] \<and> last (N_languageInstruction lang) = CHR ''.''"
    by (simp add: N_languageInstruction_def N_languageInstruction_zh_def N_languageInstruction_en_def)
  then show ?thesis
    by (metis append_butlast_last_id)
qed

lemma N_prompt_eq:
  "N_prompt dob lang = N_head @ dob @ N_prompt_mid @ N_languageInstruction lang"
proof -
  let ?li = "butlast (N_languageInstruction lang)"
  have "N_prompt dob lang =
      trim (''\<newline>'' @ CHR ''D'' # (''ate of birth: '' @ dob @ N_prompt_mid @ ?li) @ CHR ''.'' # ''\<newline>    '')"
    unfolding N_prompt_def N_prompt_pre_def N_prompt_post_def
    by (subst N_li_last) simp
  also have "\<dots> = CHR ''D'' # (''ate of birth: '' @ dob @ N_prompt_mid @ ?li) @ ''.''"
    by (rule trim_core) (simp_all add: ws1_def stop_fwd_def stop_rev_def)
  also have "\<dots> = N_head @ dob @ N_prompt_mid @ (?li @ ''.'')"
    by (simp add: N_head_def)
  finally show ?thesis
    using N_li_last [of lang] by simp
qed

subsection \<open>Substrings\<close>

lemma sublist_at:
  assumes "take (length x) (drop k s) = x"
  shows "sublist x s"
proof -
  have "s = take k s @ drop k s"
    by simp
  also have "drop k s = take (length x) (drop k s) @ drop (length x) (drop k s)"
    by (simp only: append_take_drop_id)
  finally have "s = take k s @ x @ drop (length x) (drop k s)"
    using assms by simp
  then show ?thesis
    unfolding sublist_def by blast
qed

lemma sub_N_zh:
  "sublist ''Write the entire report in natural, fluent Simplified Chinese'' N_languageInstruction_zh"
  "sublist ''Do:'' N_languageInstruction_zh"
  "sublist ''Don't:'' N_languageInstruction_zh"
  by (rule sublist_at [where k = 0], simp add: N_languageInstruction_zh_def,
      rule sublist_at [where k = 232], simp add: N_languageInstruction_zh_def,
      rule sublist_at [where k = 242], simp add: N_languageInstruction_zh_def)

lemma sub_V_zh:
  "sublist ''Write the entire report in natural, fluent Simplified Chinese'' V_languageInstruction_zh"
  "sublist ''Do:'' V_sections_post"
  "sublist ''Don't:'' V_sections_post"
  by (rule sublist_at [where k = 0], simp add: V_languageInstruction_zh_def,
      rule sublist_at [where k = 584], simp add: V_sections_post_def,
      rule sublist_at [where k = 593], simp add: V_sections_post_def)

lemma sublist_in_right: "sublist x b \<Longrightarrow> sublist x (a @ b)"
  by (metis sublist_append)

lemma sublist_in_left: "sublist x a \<Longrightarrow> sublist x (a @ b)"
  by (metis sublist_append)

subsection \<open>Occurrences of the date of birth in a prompt\<close>

lemma occ_short:
  assumes "length xs < length d"
  shows "occurrences d xs = 0"
  using assms
proof (induction xs)
  case Nil
  then show ?case by auto
next
  case (Cons c cs)
  then have "\<not> prefix d (c # cs)"
    using prefix_length_le by fastforce
  then show ?case
    using Cons by simp
qed

lemma prefix_sep:
  assumes "s \<notin> set d"
  shows "prefix d (xs @ s # ys) \<longleftrightarrow> prefix d xs"
proof
  assume "prefix d (xs @ s # ys)"
  then consider "prefix d xs" | us where "d = xs @ us" "prefix us (s # ys)"
    by (auto simp add: prefix_append)
  then show "prefix d xs"
  proof cases
    case 1
    then show ?thesis .
  next
    case 2
    then have "us = []"
      using assms by (cases us) auto
    then show ?thesis
      using 2 by simp
  qed
next
  assume "prefix d xs"
  then show "prefix d (xs @ s # ys)"
    by (simp add: prefix_prefix)
qed

lemma occ_sep:
  assumes "s \<notin> set d" and "d \<noteq> []"
  shows "occurrences d (xs @ s # ys) = occurrences d xs + occurrences d ys"
proof (induction xs)
  case Nil
  have "\<not> prefix d (s # ys)"
    using assms by (cases d) auto
  then show ?case
    using assms(2) by simp
next
  case (Cons c cs)
  have "prefix d (c # cs @ s # ys) \<longleftrightarrow> prefix d (c # cs)"
    using prefix_sep [OF assms(1), of "c # cs" ys] by simp
  then show ?case
    using Cons by simp
qed

lemma occ_self:
  assumes "d \<noteq> []"
  shows "occurrences d d = 1"
proof (cases d)
  case Nil
  then show ?thesis using assms by simp
next
  case (Cons c cs)
  have "occurrences d cs = 0"
    using Cons by (intro occ_short) simp
  then show ?thesis
    using Cons by simp
qed

lemma valid_shaped:
  assumes "isValidDOB d"
  shows "dob_shaped (d @ zs)"
proof -
  obtain a b c e f g h i j where d: "d = [a, b, c, e, f, g, h, i, j]"
    using assms
    by (auto simp add: isValidDOB_def length_Suc_conv eval_nat_numeral)
  show ?thesis
    using assms unfolding d
    by (simp add: isValidDOB_def)
qed

lemma occ_le_shaped:
  assumes "isValidDOB d"
  shows "occurrences d xs \<le> shaped_positions xs"
proof (induction xs)
  case Nil
  then show ?case
    using assms by (auto simp add: isValidDOB_def)
next
  case (Cons c cs)
  have "dob_shaped (c # cs)" if pf: "prefix d (c # cs)"
  proof -
    obtain zs where zs: "c # cs = d @ zs"
      using pf unfolding prefix_def by blast
    show ?thesis
      using assms unfolding zs by (rule valid_shaped)
  qed
  then show ?case
    using Cons by auto
qed

lemma valid_chars:
  assumes "isValidDOB d" and "c \<in> set d"
  shows "is_digit c \<or> is_upper c"
proof -
  have "take 2 d @ take 3 (drop 2 d) @ drop 3 (drop 2 d) = d"
    by (simp only: append_take_drop_id)
  moreover have "drop 3 (drop 2 d) = drop 5 d"
    by simp
  ultimately have "d = take 2 d @ take 3 (drop 2 d) @ drop 5 d"
    by metis
  then have "set d = set (take 2 d) \<union> set (take 3 (drop 2 d)) \<union> set (drop 5 d)"
    by (metis Un_assoc set_append)
  then show ?thesis
    using assms by (auto simp add: isValidDOB_def list_all_iff)
qed

lemma once_between:
  assumes "isValidDOB d"
    and "\<not> (is_digit a \<or> is_upper a)" and "\<not> (is_digit b \<or> is_upper b)"
    and "shaped_positions p = 0" and "shaped_positions q = 0"
  shows "occurrences d (p @ a # d @ b # q) = 1"
proof -
  have ne: "d \<noteq> []"
    using assms(1) by (auto simp add: isValidDOB_def)
  have a: "a \<notin> set d" and b: "b \<notin> set d"
    using assms(1,2,3) valid_chars by blast+
  have "occurrences d p = 0" and "occurrences d q = 0"
    using occ_le_shaped [OF assms(1), of p] occ_le_shaped [OF assms(1), of q] assms(4,5)
    by simp_all
  moreover have "occurrences d (p @ a # d @ b # q) =
      occurrences d p + occurrences d (d @ b # q)"
    by (rule occ_sep [OF a ne])
  moreover have "occurrences d (d @ b # q) = occurrences d d + occurrences d q"
    by (rule occ_sep [OF b ne])
  ultimately show ?thesis
    using occ_self [OF ne] by simp
qed

lemma separators:
  "\<not> (is_digit CHR '' '' \<or> is_upper CHR '' '')"
  "\<not> (is_digit CHR ''.'' \<or> is_upper CHR ''.'')"
  "\<not> (is_digit CHR ''\<newline>'' \<or> is_upper CHR ''\<newline>'')"
  by (simp_all add: is_digit_def is_upper_def)

lemma N_frame:
  "N_head = butlast N_head @ '' ''"
  "N_tail lang = CHR ''\<newline>'' # tl (N_tail lang)"
  "N_tail lang = N_tail ''zh'' \<or> N_tail lang = N_tail ''en''"
  by (simp_all add: N_head_def N_tail_def N_prompt_mid_def N_languageInstruction_def)

lemma N_shaped:
  "shaped_positions (butlast N_head) = 0"
  "shaped_positions (tl (N_tail ''zh'')) = 0"
  "shaped_positions (tl (N_tail ''en'')) = 0"
  by code_simp+

lemma R_frame:
  "R_prompt_pre = butlast R_prompt_pre @ '' ''"
  "R_prompt_post = CHR ''.'' # tl R_prompt_post"
  by (simp_all add: R_prompt_pre_def R_prompt_post_def)

lemma R_shaped:
  "shaped_positions (butlast R_prompt_pre) = 0"
  "shaped_positions (tl R_prompt_post) = 0"
  by code_simp+

lemma V_frame:
  "V_head lang = butlast (V_head lang) @ '' ''"
  "V_sections_post = CHR ''\<newline>'' # tl V_sections_post"
  "V_head lang = V_head ''zh'' \<or> V_head lang = V_head ''en''"
proof -
  have "V_head lang \<noteq> [] \<and> last (V_head lang) = CHR '' ''"
    by (simp add: V_head_def V_sections_pre_def)
  then show "V_head lang = butlast (V_head lang) @ '' ''"
    by (metis append_butlast_last_id)
  show "V_sections_post = CHR ''\<newline>'' # tl V_sections_post"
    by (simp add: V_sections_post_def)
  show "V_head lang = V_head ''zh'' \<or> V_head lang = V_head ''en''"
    by (simp add: V_head_def V_languageInstruction_def)
qed

lemma V_shaped:
  "shaped_positions (butlast (V_head ''zh'')) = 0"
  "shaped_positions (butlast (V_head ''en'')) = 0"
  "shaped_positions (tl V_sections_post) = 0"
  by code_simp+

lemma N_once:
  assumes "isValidDOB dob"
  shows "occurrences dob (N_prompt dob lang) = 1"
proof -
  have "shaped_positions (tl (N_tail lang)) = 0"
    using N_frame(3) [of lang] N_shaped(2,3) by auto
  then have "occurrences dob (butlast N_head @ CHR '' '' # dob @ CHR ''\<newline>'' # tl (N_tail lang)) = 1"
    using assms separators N_shaped(1) by (intro once_between)
  moreover have "N_prompt dob lang =
      butlast N_head @ CHR '' '' # dob @ CHR ''\<newline>'' # tl (N_tail lang)"
    using N_frame(1) N_frame(2) [of lang] by (simp add: N_prompt_eq N_tail_def)
  ultimately show ?thesis
    by simp
qed

lemma R_once:
  assumes "isValidDOB dob"
  shows "occurrences dob (buildPrompt dob) = 1"
proof -
  have "occurrences dob (butlast R_prompt_pre @ CHR '' '' # dob @ CHR ''.'' # tl R_prompt_post) = 1"
    using assms separators R_shaped by (intro once_between)
  moreover have "buildPrompt dob =
      butlast R_prompt_pre @ CHR '' '' # dob @ CHR ''.'' # tl R_prompt_post"
    using R_frame by (simp add: buildPrompt_def)
  ultimately show ?thesis
    by simp
qed

lemma V_once:
  assumes "isValidDOB dob"
  shows "occurrences dob (V_prompt dob lang) = 1"
proof -
  have "shaped_positions (butlast (V_head lang)) = 0"
    using V_frame(3) [of lang] V_shaped(1,2) by auto
  then have "occurrences dob
      (butlast (V_head lang) @ CHR '' '' # dob @ CHR ''\<newline>'' # tl V_sections_post) = 1"
    using assms separators V_shaped(3) by (intro once_between)
  moreover have "V_prompt dob lang =
      butlast (V_head lang) @ CHR '' '' # dob @ CHR ''\<newline>'' # tl V_sections_post"
  proof -
    have "V_prompt dob lang = V_head lang @ dob @ V_sections_post"
      by (simp only: V_prompt_def V_head_def V_sectionsInstruction_def append_assoc)
    then show ?thesis
      using V_frame(1) [of lang] V_frame(2) by (metis append.assoc append_Cons append_Nil)
  qed
  ultimately show ?thesis
    by simp
qed

subsection \<open>The gates and the stages behind them\<close>

lemma N_handler_open:
  assumes "httpMethod ev = ''POST''" and "truthy_str key" and "\<not> today > EXPIRY_DATE"
  shows "N_try parse key fetch today ev = N_process parse fetch ev"
  using assms by (simp add: N_try_def)

lemma R_try_open:
  assumes "httpMethod ev = ''POST''" and "\<not> R_expired Date_parse e now"
  shows "R_try parse upper Date_parse e fetch now ev = R_process parse upper e fetch ev"
  using assms by (simp add: R_try_def)

lemma V_handler_open:
  assumes "req_method req = ''POST''" and "truthy_str key" and "\<not> V_expired Date_parse now"
  shows "V_handler parse Date_parse key fetch now req = V_process parse fetch req"
  using assms by (simp add: V_handler_def V_expired_def split: option.splits)

lemma V_generate_status:
  "statusCode (fst (V_generate parse fetch p)) \<in> {200, 500, 502}"
  by (simp add: V_generate_def json_resp_def Let_def
      split: fetch_result.splits option.splits sum.splits)

lemma V_generate_status':
  assumes "V_generate parse fetch p = (r, calls)"
  shows "statusCode r \<in> {200, 500, 502}"
  using V_generate_status [of parse fetch p] assms by simp

lemma V_process_status:
  assumes "V_process parse fetch req = (Inr r, calls)"
  shows "statusCode r \<in> {200, 400, 500, 502}"
  using assms
  by (auto simp add: V_process_def json_resp_def Let_def
      split: sum.splits prod.splits if_splits dest: V_generate_status')

lemma newline_notin_notice: "CHR ''\<newline>'' \<notin> set (''<p>'' @ EXPIRY_MESSAGE @ ''</p>'')"
  by (simp add: EXPIRY_MESSAGE_def)

lemma R_process_not_notice:
  "fst (R_process parse upper e fetch ev) \<noteq>
     Inr (json_resp (JObj [(''resultHtml'', JStr (''<p>'' @ EXPIRY_MESSAGE @ ''</p>''))]) 200)"
proof
  assume a: "fst (R_process parse upper e fetch ev) =
     Inr (json_resp (JObj [(''resultHtml'', JStr (''<p>'' @ EXPIRY_MESSAGE @ ''</p>''))]) 200)"
  then obtain h where "h @ ''\<newline>'' @ R_signOff e = ''<p>'' @ EXPIRY_MESSAGE @ ''</p>''"
    by (auto simp add: R_process_def json_resp_def
        split: option.splits sum.splits prod.splits if_splits)
  then have "CHR ''\<newline>'' \<in> set (''<p>'' @ EXPIRY_MESSAGE @ ''</p>'')"
    by (metis append_Cons in_set_conv_decomp)
  then show False
    using newline_notin_notice by simp
qed

lemma N_generate_calls: "snd (N_generate parse fetch p) = [p]"
  by (simp add: N_generate_def split: fetch_result.splits option.splits sum.splits)

lemma V_generate_calls: "snd (V_generate parse fetch p) = [p]"
  by (simp add: V_generate_def Let_def split: fetch_result.splits option.splits sum.splits)

lemma N_process_cases:
  "snd (N_process parse fetch ev) = [] \<or>
   (\<exists>p. N_process parse fetch ev = N_generate parse fetch p)"
  by (auto simp add: N_process_def Let_def split: option.splits sum.splits json.splits)

lemma N_try_cases:
  "snd (N_try parse key fetch today ev) = [] \<or>
   (\<exists>p. N_try parse key fetch today ev = N_generate parse fetch p)"
  using N_process_cases [of parse fetch ev] by (auto simp add: N_try_def)

lemma V_process_cases:
  "snd (V_process parse fetch req) = [] \<or>
   (\<exists>p. V_process parse fetch req =
      (Inr (fst (V_generate parse fetch p)), snd (V_generate parse fetch p)))"
  by (auto simp add: V_process_def Let_def case_prod_beta V_generate_calls split: sum.splits)

lemma V_handler_cases:
  "snd (V_handler parse Date_parse key fetch now req) = [] \<or>
   (\<exists>p. V_handler parse Date_parse key fetch now req =
      (Inr (fst (V_generate parse fetch p)), snd (V_generate parse fetch p)))"
  using V_process_cases [of parse fetch req]
  by (auto simp add: V_handler_def split: option.splits)

lemma N_generate_bad:
  assumes "fetch p = HttpResponse st (Some raw)" and "\<not> resp_ok st"
  shows "N_generate parse fetch p =
     (Inr (json_resp (N_error
        (''OpenAI API error. Please try again later or '' @
         ''contact the site owner.'')) 502), [p])"
  using assms by (simp add: N_generate_def)

lemma V_generate_bad:
  assumes "fetch p = HttpResponse st b" and "\<not> resp_ok st"
  shows "V_generate parse fetch p =
     (json_resp (V_error
        (''OpenAI API error. Please try again later or contact the site '' @
         ''owner if this persists.'')) 502, [p])"
  using assms by (simp add: V_generate_def)

lemma R_handler_bad:
  assumes "\<forall>p. \<exists>st b. fetch p = HttpResponse st b \<and> \<not> resp_ok st"
    and "snd (R_handler parse upper Date_parse e fetch now ev) \<noteq> []"
  shows "fst (R_handler parse upper Date_parse e fetch now ev) =
     json_resp (R_message ''Server error. Please try again later.'') 500"
proof -
  have c: "\<exists>x c. callOpenAI parse e fetch p = (Inl x, c)" for p
  proof -
    obtain st b where "fetch p = HttpResponse st b" "\<not> resp_ok st"
      using assms(1) by blast
    then show ?thesis
      by (cases b) (simp_all add: callOpenAI_def)
  qed
  show ?thesis
  proof (cases "httpMethod ev \<noteq> ''POST'' \<or> R_expired Date_parse e now")
    case True
    then show ?thesis
      using assms(2) by (auto simp add: R_handler_def R_try_def)
  next
    case False
    then have t: "R_try parse upper Date_parse e fetch now ev = R_process parse upper e fetch ev"
      by (simp add: R_try_def)
    show ?thesis
    proof (cases "parse (or_empty_object (ev_body ev))")
      case None
      then show ?thesis by (simp add: R_handler_def t R_process_def)
    next
      case (Some b)
      show ?thesis
      proof (cases "R_dob upper b")
        case (Inl x)
        then show ?thesis using Some by (simp add: R_handler_def t R_process_def)
      next
        case (Inr dob)
        obtain x c where "callOpenAI parse e fetch (buildPrompt dob) = (Inl x, c)"
          using c by blast
        then show ?thesis
          using Some Inr assms(2)
          by (cases "isValidDOB dob") (simp_all add: R_handler_def t R_process_def)
      qed
    qed
  qed
qed

lemma N_process_zh:
  assumes "parse (or_empty_object (ev_body ev)) = Some v"
    and "get_prop (Some v) ''dob'' = Inr (Some (JStr d))" and "d \<noteq> []"
    and "get_prop (Some v) ''language'' = Inr (Some (JStr ''zh''))"
  shows "snd (N_process parse fetch ev) = [N_prompt d ''zh'']"
  using assms by (simp add: N_process_def N_generate_calls)

lemma V_process_zh:
  assumes "parseJsonBody parse req = Inr v"
    and "get_prop (Some v) ''dob'' = Inr (Some (JStr d))" and "trim d \<noteq> []"
    and "get_prop (Some v) ''language'' = Inr (Some (JStr ''zh''))"
  shows "snd (V_process parse fetch req) = [V_prompt (trim d) ''zh'']"
  using assms
  by (simp add: V_process_def opt_prop_def case_prod_beta V_generate_calls Let_def)

subsection \<open>Extraction of the generated text\<close>

lemma nested_chat:
  assumes "nested_content data = Some c"
  shows "chat_content data = Inr (Some c)"
  using assms
  by (auto simp add: nested_content_def chat_content_def
      split: json.splits option.splits list.splits)

lemma nested_V:
  assumes "nested_content data = Some (JStr s)"
  shows "V_content data = Inr (Some (JStr (trim s)))"
  using assms
  by (auto simp add: nested_content_def V_content_def opt_prop_def opt_elem0_def
      split: json.splits option.splits list.splits)

lemma direct_prop:
  assumes "direct_text data = Some t"
  shows "get_prop (Some data) ''output_text'' = Inr (Some t)"
  using assms by (auto simp add: direct_text_def split: json.splits)

lemma nested_prop:
  assumes "nested_content data = Some c"
  shows "get_prop (Some data) ''output_text'' = Inr (direct_text data)"
  using assms by (auto simp add: nested_content_def direct_text_def split: json.splits)

lemma or_else_string:
  assumes "string_or_falsy m" and "f \<noteq> []"
  shows "\<exists>s. s \<noteq> [] \<and> or_else m (JStr f) = JStr s"
proof (cases m)
  case None
  then show ?thesis using assms(2) by simp
next
  case (Some v)
  then show ?thesis
    using assms by (cases v) (auto simp add: string_or_falsy_def)
qed

lemma nonempty_consts:
  "N_expired_html \<noteq> []" "N_fallback_html \<noteq> []" "V_fallback_html \<noteq> []"
  by (simp_all add: N_expired_html_def N_fallback_html_def V_fallback_html_def)

lemma N_generate_success:
  assumes "\<forall>p st raw data m. fetch p = HttpResponse st (Some raw) \<and> parse raw = Some data \<and>
             chat_content data = Inr m \<longrightarrow> string_or_falsy m"
    and "N_generate parse fetch p = (Inr r, calls)" and "statusCode r = 200"
  shows "\<exists>s. s \<noteq> [] \<and> body r = JObj [(''html'', JStr s)]"
proof (cases "fetch p")
  case FetchFailed
  then show ?thesis using assms(2) by (simp add: N_generate_def)
next
  case (HttpResponse st b)
  show ?thesis
  proof (cases b)
    case None
    then show ?thesis
      using assms(2) HttpResponse by (simp add: N_generate_def split: if_splits)
  next
    case (Some raw)
    note raw = this
    show ?thesis
    proof (cases "resp_ok st")
      case False
      then show ?thesis
        using assms(2,3) HttpResponse raw by (auto simp add: N_generate_def json_resp_def)
    next
      case True
      show ?thesis
      proof (cases "parse raw")
        case None
        then show ?thesis
          using assms(2) HttpResponse raw True by (simp add: N_generate_def)
      next
        case (Some data)
        show ?thesis
        proof (cases "chat_content data")
          case (Inl x)
          then show ?thesis
            using assms(2) HttpResponse raw True Some by (simp add: N_generate_def)
        next
          case (Inr m)
          have "string_or_falsy m"
            using assms(1) HttpResponse raw Some Inr by blast
          then obtain s where "s \<noteq> []" "or_else m (JStr N_fallback_html) = JStr s"
            using or_else_string nonempty_consts(2) by blast
          then show ?thesis
            using assms(2) HttpResponse raw True Some Inr
            by (auto simp add: N_generate_def json_resp_def)
        qed
      qed
    qed
  qed
qed

lemma N_try_success:
  assumes "\<forall>p st raw data m. fetch p = HttpResponse st (Some raw) \<and> parse raw = Some data \<and>
             chat_content data = Inr m \<longrightarrow> string_or_falsy m"
    and "N_try parse key fetch today ev = (Inr r, calls)" and "statusCode r = 200"
  shows "\<exists>s. s \<noteq> [] \<and> body r = JObj [(''html'', JStr s)]"
proof (cases "calls = []")
  case False
  then obtain p where "N_try parse key fetch today ev = N_generate parse fetch p"
    using N_try_cases [of parse key fetch today ev] assms(2) by auto
  then have "N_generate parse fetch p = (Inr r, calls)"
    using assms(2) by simp
  then show ?thesis
    using N_generate_success [OF assms(1) _ assms(3)] by blast
next
  case True
  have g: "snd (N_generate parse fetch p) \<noteq> []" for p
    by (simp add: N_generate_calls)
  have "N_process parse fetch ev = (Inr r, []) \<Longrightarrow> statusCode r = 400"
    using g
    by (auto simp add: N_process_def N_invalid_dob_def json_resp_def Let_def
        split: option.splits sum.splits json.splits if_splits)
      (metis snd_conv)+
  then show ?thesis
    using assms(2,3) True nonempty_consts(1)
    by (auto simp add: N_try_def json_resp_def split: if_splits)
qed

lemma V_content_string_or_falsy:
  assumes "V_content data = Inr c"
  shows "string_or_falsy c"
  using assms
  by (auto simp add: V_content_def string_or_falsy_def split: option.splits json.splits)

lemma V_generate_success:
  assumes "V_generate parse fetch p = (r, calls)" and "statusCode r = 200"
  shows "\<exists>s. s \<noteq> [] \<and> body r = JObj [(''html'', JStr s)]"
proof -
  have o: "\<exists>s. s \<noteq> [] \<and> or_else c (JStr V_fallback_html) = JStr s"
    if "V_content data = Inr c" for data c
    using or_else_string [OF V_content_string_or_falsy [OF that] nonempty_consts(3)] .
  show ?thesis
    using assms
    by (auto simp add: V_generate_def json_resp_def Let_def
        split: fetch_result.splits option.splits sum.splits if_splits dest: o)
qed

lemma V_handler_success:
  assumes "V_handler parse Date_parse key fetch now req = (Inr r, calls)"
    and "statusCode r = 200"
  shows "\<exists>s. s \<noteq> [] \<and> body r = JObj [(''html'', JStr s)]"
proof (cases "calls = []")
  case False
  then obtain p where "V_handler parse Date_parse key fetch now req =
      (Inr (fst (V_generate parse fetch p)), snd (V_generate parse fetch p))"
    using V_handler_cases [of parse Date_parse key fetch now req] assms(1) by auto
  then have "V_generate parse fetch p = (r, calls)"
    using assms(1) by (simp add: prod_eq_iff)
  then show ?thesis
    using V_generate_success assms(2) by blast
next
  case True
  have "V_process parse fetch req = (Inr r, []) \<Longrightarrow> statusCode r = 400"
    by (auto simp add: V_process_def json_resp_def Let_def V_generate_calls case_prod_beta
        split: sum.splits if_splits)
  then show ?thesis
    using assms True
    by (auto simp add: V_handler_def json_resp_def split: if_splits option.splits)
qed

lemma R_handler_success:
  assumes "statusCode (fst (R_handler parse upper Date_parse e fetch now ev)) = 200"
  shows "\<exists>s. s \<noteq> [] \<and>
     body (fst (R_handler parse upper Date_parse e fetch now ev)) = JObj [(''resultHtml'', JStr s)]"
proof -
  have p: "\<exists>s. s \<noteq> [] \<and> body r = JObj [(''resultHtml'', JStr s)]"
    if "R_process parse upper e fetch ev = (Inr r, calls)" "statusCode r = 200" for r calls
    using that
    by (auto simp add: R_process_def json_resp_def
        split: option.splits sum.splits prod.splits if_splits)
  have t: "\<exists>s. s \<noteq> [] \<and> body r = JObj [(''resultHtml'', JStr s)]"
    if "R_try parse upper Date_parse e fetch now ev = (Inr r, calls)" "statusCode r = 200" for r calls
    using that p
    by (auto simp add: R_try_def json_resp_def split: if_splits)
  show ?thesis
  proof (cases "R_try parse upper Date_parse e fetch now ev")
    case (Pair a calls)
    then show ?thesis
      using assms t by (cases a) (auto simp add: R_handler_def json_resp_def)
  qed
qed

section \<open>The claims\<close>

text \<open>
  C1, as stated: every request received after the expiry instant gets the variant's
  expiry outcome, and in particular never a configuration error. This fails: in
  \<^verbatim>\<open>fortune.js\<close> the credential check comes before the expiry check, so a POST on
  1 May 2026 to a deployment without an API key is answered 500.
\<close>

theorem expired_without_key_is_config_error:
  "''2026-05-01'' > EXPIRY_DATE \<and>
   N_handler sample_parse None (fetch_reply 200 []) ''2026-05-01'' (post None) =
     (json_resp (N_error ''Server configuration error: API key not set.'') 500, [])"
  by code_simp

text \<open>
  C1, amended: a POST request received after the expiry instant, on a deployment whose
  credential is set where the variant checks it before the expiry (\<^verbatim>\<open>fortune.js\<close> and
  the Vercel variant), gets the variant's expiry outcome and no upstream call is made:
  the 200 notice in the two Netlify variants, the 410 error in the Vercel variant.
\<close>

theorem expiry_gate:
  "(httpMethod ev = ''POST'' \<and> truthy_str key \<and> today > EXPIRY_DATE \<longrightarrow>
      N_handler parse key fetch today ev =
        (json_resp (JObj [(''html'', JStr N_expired_html)]) 200, [])) \<and>
   (httpMethod ev = ''POST'' \<and> EXPIRY_DATE_var e = Some s \<and> s \<noteq> [] \<and>
    Date_parse s = Some t \<and> now > t \<longrightarrow>
      R_handler parse upper Date_parse e fetch now ev =
        (json_resp (JObj [(''resultHtml'', JStr (''<p>'' @ EXPIRY_MESSAGE @ ''</p>''))]) 200, [])) \<and>
   (req_method req = ''POST'' \<and> truthy_str key \<and>
    Date_parse (V_EXPIRY_DATE @ ''T23:59:59Z'') = Some t' \<and> now > t' \<longrightarrow>
      V_handler parse Date_parse key fetch now req =
        (Inr (json_resp (V_error
           (''This 2026 Auspicious Report campaign has ended. Please check '' @
            ''back for future editions.'')) 410), []))"
  by (simp add: N_handler_def N_try_def R_handler_def R_try_def R_expired_def truthy_str_def
      V_handler_def)

theorem expiry_gate_witness:
  "N_handler sample_parse (Some ''sk-test'') (fetch_reply 200 []) ''2026-05-01'' (post None) =
     (json_resp (JObj [(''html'', JStr N_expired_html)]) 200, []) \<and>
   R_handler sample_parse sample_upper sample_Date_parse sample_env (fetch_reply 200 []) 1777507200001 (post None) =
     (json_resp (JObj [(''resultHtml'', JStr (''<p>'' @ EXPIRY_MESSAGE @ ''</p>''))]) 200, []) \<and>
   V_handler sample_parse sample_Date_parse (Some ''sk-test'') (fetch_reply 200 []) 1777507200001
       (vpost None []) =
     (Inr (json_resp (V_error
        (''This 2026 Auspicious Report campaign has ended. Please check '' @
         ''back for future editions.'')) 410), [])"
  using expiry_gate [where ev = "post None" and key = "Some ''sk-test''" and today = "''2026-05-01''"
      and e = sample_env and upper = sample_upper and s = "''2026-04-30''" and Date_parse = sample_Date_parse
      and t = 1777507200000 and now = 1777507200001 and req = "vpost None []"
      and t' = 1775001599000 and parse = sample_parse and fetch = "fetch_reply 200 []"]
  by (simp add: post_def vpost_def truthy_str_def EXPIRY_DATE_def sample_env_def
      sample_Date_parse_def V_EXPIRY_DATE_def)

text \<open>
  C2, as stated: a body that does not parse is answered with the 400 InvalidBody error.
  This fails in \<^verbatim>\<open>fortune.js\<close>: \<open>JSON.parse\<close> throws inside the handler's
  \<open>try\<close>, and the \<open>catch\<close> answers 500.
\<close>

theorem malformed_body_netlify_is_500:
  "sample_parse ''{'' = None \<and>
   N_handler sample_parse (Some ''sk-test'') (fetch_reply 200 []) ''2026-04-30'' (post (Some ''{'')) =
     (json_resp (N_error ''Unexpected server error. Please try again later.'') 500, [])"
  by (simp add: sample_parse_def N_handler_def N_try_def N_process_def post_def truthy_str_def
      EXPIRY_DATE_def or_empty_object_def)

text \<open>
  C2, amended: in the Vercel variant, a request that passes the method, credential and
  expiry gates and whose body text (the string in \<open>req.body\<close>, or the data of the
  stream when \<open>req.body\<close> is falsy) is not empty and makes \<open>JSON.parse\<close> throw is
  answered 400 "Invalid JSON body." with no upstream call; in the two Netlify variants
  such a body leads to no upstream call.
\<close>

theorem malformed_body:
  "(req_method req = ''POST'' \<and> truthy_str key \<and> \<not> V_expired Date_parse now \<and>
    ((req_body req = Some (JStr s) \<and> s \<noteq> []) \<or>
     (\<not> truthy (req_body req) \<and> req_stream req = StreamData s \<and> s \<noteq> [])) \<and>
    parse s = None \<longrightarrow>
      V_handler parse Date_parse key fetch now req =
        (Inr (json_resp (V_error ''Invalid JSON body.'') 400), [])) \<and>
   (ev_body ev = Some s \<and> s \<noteq> [] \<and> parse s = None \<longrightarrow>
      snd (N_handler parse key fetch today ev) = [] \<and>
      snd (R_handler parse upper Date_parse e fetch now ev) = [])"
proof -
  have p: "parseJsonBody parse req = Inl SyntaxError"
    if "(req_body req = Some (JStr s) \<and> s \<noteq> []) \<or>
        (\<not> truthy (req_body req) \<and> req_stream req = StreamData s \<and> s \<noteq> [])"
       "parse s = None"
    using that
    by (cases "req_body req")
       (auto simp add: parseJsonBody_def read_stream_def or_empty_object_def)
  have v: "V_process parse fetch req = (Inr (json_resp (V_error ''Invalid JSON body.'') 400), [])"
    if "parseJsonBody parse req = Inl SyntaxError"
    using that by (simp add: V_process_def)
  have n: "snd (N_handler parse key fetch today ev) = []"
    if "ev_body ev = Some s" "s \<noteq> []" "parse s = None"
    using that by (simp add: N_handler_def N_try_def N_process_def or_empty_object_def)
  have r: "snd (R_handler parse upper Date_parse e fetch now ev) = []"
    if "ev_body ev = Some s" "s \<noteq> []" "parse s = None"
    using that by (simp add: R_handler_def R_try_def R_process_def or_empty_object_def)
  show ?thesis
    using p v n r by (auto simp add: V_handler_open)
qed

theorem malformed_body_witness:
  "V_handler sample_parse sample_Date_parse (Some ''sk-test'') (fetch_reply 200 []) 0
       (vpost (Some (JStr ''{'')) []) =
     (Inr (json_resp (V_error ''Invalid JSON body.'') 400), []) \<and>
   snd (N_handler sample_parse (Some ''sk-test'') (fetch_reply 200 []) ''2026-04-30''
       (post (Some ''{''))) = [] \<and>
   snd (R_handler sample_parse sample_upper sample_Date_parse sample_env (fetch_reply 200 []) 0
       (post (Some ''{''))) = []"
  using malformed_body [where req = "vpost (Some (JStr ''{'')) []" and key = "Some ''sk-test''"
      and Date_parse = sample_Date_parse and now = 0 and s = "''{''" and parse = sample_parse
      and ev = "post (Some ''{'')" and fetch = "fetch_reply 200 []" and today = "''2026-04-30''"
      and e = sample_env and upper = sample_upper]
  by (simp add: vpost_def post_def truthy_str_def V_expired_def sample_Date_parse_def
      V_EXPIRY_DATE_def sample_parse_def)

text \<open>
  C3, as stated: a date of birth that is not a string, or is empty after trimming, is
  answered 400 InvalidInput with no upstream call in every variant. This fails in the
  strict variant, where \<open>(body.dob || "").toUpperCase()\<close> throws on the number 123
  and the \<open>catch\<close> answers 500; and in \<^verbatim>\<open>fortune.js\<close>, which does not trim: a date
  of birth of three spaces goes upstream.
\<close>

theorem dob_number_or_spaces_not_rejected:
  \<open>R_handler sample_parse sample_upper sample_Date_parse sample_env (fetch_reply 200 []) 0
       (post (Some ''{"dob":123}'')) =
     (json_resp (R_message ''Server error. Please try again later.'') 500, []) \<and>
   trim ''   '' = [] \<and>
   snd (N_handler sample_parse (Some ''sk-test'') (fetch_reply 200 []) ''2026-04-30''
       (post (Some ''{"dob":"   "}''))) = [N_prompt ''   '' ''en'']\<close>
  by code_simp

text \<open>
  C3, amended: for a request that passes the gates and whose body parses to a value
  other than \<open>null\<close>, the handler answers 400 InvalidInput and makes no upstream call
  when the date of birth is
  \<^item> in \<^verbatim>\<open>fortune.js\<close>: absent, not a string, or the empty string;
  \<^item> in the strict variant: absent or falsy, or a string that, upper-cased and trimmed,
    does not match two digits, three capitals, four digits;
  \<^item> in the Vercel variant: absent, not a string, or empty after trimming.
\<close>

theorem invalid_dob:
  "(httpMethod ev = ''POST'' \<and> truthy_str key \<and> \<not> today > EXPIRY_DATE \<and>
    parse (or_empty_object (ev_body ev)) = Some v \<and> get_prop (Some v) ''dob'' = Inr d \<and>
    (\<forall>x. d = Some (JStr x) \<longrightarrow> x = []) \<longrightarrow>
      N_handler parse key fetch today ev = (N_invalid_dob, [])) \<and>
   (httpMethod ev = ''POST'' \<and> \<not> R_expired Date_parse e now \<and>
    parse (or_empty_object (ev_body ev)) = Some v \<and> get_prop (Some v) ''dob'' = Inr d \<and>
    (\<not> truthy d \<or> (\<exists>x. d = Some (JStr x) \<and> \<not> isValidDOB (trim (toUpperCase upper x)))) \<longrightarrow>
      R_handler parse upper Date_parse e fetch now ev =
        (json_resp (R_message ''Please use DDMMMYYYY, e.g., 08DEC1977.'') 400, [])) \<and>
   (req_method req = ''POST'' \<and> truthy_str key \<and> \<not> V_expired Date_parse now \<and>
    parseJsonBody parse req = Inr v \<and> get_prop (Some v) ''dob'' = Inr d \<and>
    (\<forall>x. d = Some (JStr x) \<longrightarrow> trim x = []) \<longrightarrow>
      V_handler parse Date_parse key fetch now req =
        (Inr (json_resp (V_error
           (''Missing or invalid 'dob'. Please provide DDMMMYYYY '' @
            ''(e.g. 08DEC1977).'')) 400), []))"
proof -
  have gl: "\<exists>l. get_prop (Some v) ''language'' = Inr l" if "get_prop (Some v) ''dob'' = Inr d"
    using that by (cases v) simp_all
  have n: "N_process parse fetch ev = (Inr N_invalid_dob, [])"
    if "parse (or_empty_object (ev_body ev)) = Some v" "get_prop (Some v) ''dob'' = Inr d"
       "\<forall>x. d = Some (JStr x) \<longrightarrow> x = []"
    using that gl [OF that(2)]
    by (auto simp add: N_process_def Let_def split: option.splits json.splits)
  have inv: "\<not> isValidDOB (trim (toUpperCase upper []))"
    by (simp add: trim_def toUpperCase_def ascii_def isValidDOB_def)
  have rd: "\<exists>x. R_dob upper v = Inr x \<and> \<not> isValidDOB x"
    if "get_prop (Some v) ''dob'' = Inr d"
       "\<not> truthy d \<or> (\<exists>x. d = Some (JStr x) \<and> \<not> isValidDOB (trim (toUpperCase upper x)))"
    using that inv
    by (cases d) (auto simp add: R_dob_def split: if_splits)
  have r: "R_process parse upper e fetch ev =
        (Inr (json_resp (R_message ''Please use DDMMMYYYY, e.g., 08DEC1977.'') 400), [])"
    if "parse (or_empty_object (ev_body ev)) = Some v" "get_prop (Some v) ''dob'' = Inr d"
       "\<not> truthy d \<or> (\<exists>x. d = Some (JStr x) \<and> \<not> isValidDOB (trim (toUpperCase upper x)))"
    using that(1) rd [OF that(2,3)]
    by (auto simp add: R_process_def)
  have v: "V_process parse fetch req =
        (Inr (json_resp (V_error
           (''Missing or invalid 'dob'. Please provide DDMMMYYYY '' @
            ''(e.g. 08DEC1977).'')) 400), [])"
    if "parseJsonBody parse req = Inr v" "get_prop (Some v) ''dob'' = Inr d"
       "\<forall>x. d = Some (JStr x) \<longrightarrow> trim x = []"
    using that
    by (auto simp add: V_process_def Let_def split: option.splits json.splits)
  show ?thesis
    using n r v
    by (simp add: N_handler_def N_handler_open R_handler_def R_try_open V_handler_open)
qed

theorem invalid_dob_witness:
  \<open>N_handler sample_parse (Some ''sk-test'') (fetch_reply 200 []) ''2026-04-30'' (post (Some ''{}'')) =
     (N_invalid_dob, []) \<and>
   R_handler sample_parse sample_upper sample_Date_parse sample_env (fetch_reply 200 []) 0
       (post (Some ''{"dob":"2026"}'')) =
     (json_resp (R_message ''Please use DDMMMYYYY, e.g., 08DEC1977.'') 400, []) \<and>
   V_handler sample_parse sample_Date_parse (Some ''sk-test'') (fetch_reply 200 []) 0
       (vpost (Some (JStr ''{}'')) []) =
     (Inr (json_resp (V_error
        (''Missing or invalid 'dob'. Please provide DDMMMYYYY '' @
         ''(e.g. 08DEC1977).'')) 400), [])\<close>
  using invalid_dob [where ev = \<open>post (Some ''{}'')\<close> and key = "Some ''sk-test''"
      and today = "''2026-04-30''" and parse = sample_parse and fetch = "fetch_reply 200 []"
      and v = "JObj []" and d = None and req = \<open>vpost (Some (JStr ''{}'')) []\<close>
      and Date_parse = sample_Date_parse and now = 0 and e = sample_env and upper = sample_upper]
    invalid_dob [where ev = \<open>post (Some ''{"dob":"2026"}'')\<close> and key = "Some ''sk-test''"
      and today = "''2026-04-30''" and parse = sample_parse and fetch = "fetch_reply 200 []"
      and v = "JObj [(''dob'', JStr ''2026'')]" and d = "Some (JStr ''2026'')"
      and req = \<open>vpost (Some (JStr ''{}'')) []\<close>
      and Date_parse = sample_Date_parse and now = 0 and e = sample_env and upper = sample_upper]
  by (simp add: post_def vpost_def truthy_str_def EXPIRY_DATE_def sample_parse_def
      R_expired_def V_expired_def sample_env_def sample_Date_parse_def V_EXPIRY_DATE_def
      or_empty_object_def parseJsonBody_def ascii_def isValidDOB_def trim_def toUpperCase_def
      upper_char_def ws1_def)

text \<open>
  C4, as stated: a non-success upstream status is answered 502 in every variant. This
  fails in the variant on the Responses API: \<open>callOpenAI\<close> throws, and the handler's
  \<open>catch\<close> answers 500.
\<close>

theorem upstream_503_responses_variant_is_500:
  \<open>\<not> resp_ok 503 \<and>
   R_handler sample_parse sample_upper sample_Date_parse sample_env (fetch_reply 503 ''upstream says no'') 0
       (post (Some ''{"dob":"08DEC1977"}'')) =
     (json_resp (R_message ''Server error. Please try again later.'') 500,
      [buildPrompt ''08DEC1977''])\<close>
  by code_simp

text \<open>
  C4, amended: when the upstream call returns a non-success status, the Vercel variant
  answers 502, \<^verbatim>\<open>fortune.js\<close> answers 502 when the body of the error response can be
  read, and the variant on the Responses API answers 500 through its \<open>catch\<close>; in each
  variant the response is one fixed message, whatever the upstream status and raw body
  are.
\<close>

theorem upstream_error:
  "((\<forall>p. \<exists>st raw. fetch p = HttpResponse st (Some raw) \<and> \<not> resp_ok st) \<longrightarrow>
      (snd (N_handler parse key fetch today ev) \<noteq> [] \<longrightarrow>
         fst (N_handler parse key fetch today ev) =
           json_resp (N_error
             (''OpenAI API error. Please try again later or '' @
              ''contact the site owner.'')) 502)) \<and>
   ((\<forall>p. \<exists>st b. fetch p = HttpResponse st b \<and> \<not> resp_ok st) \<longrightarrow>
      (snd (V_handler parse Date_parse key fetch now req) \<noteq> [] \<longrightarrow>
         fst (V_handler parse Date_parse key fetch now req) =
           Inr (json_resp (V_error
             (''OpenAI API error. Please try again later or contact the site '' @
              ''owner if this persists.'')) 502)) \<and>
      (snd (R_handler parse upper Date_parse e fetch now ev) \<noteq> [] \<longrightarrow>
         fst (R_handler parse upper Date_parse e fetch now ev) =
           json_resp (R_message ''Server error. Please try again later.'') 500))"
proof (intro conjI impI)
  assume a: "\<forall>p. \<exists>st raw. fetch p = HttpResponse st (Some raw) \<and> \<not> resp_ok st"
    and c: "snd (N_handler parse key fetch today ev) \<noteq> []"
  have n: "N_generate parse fetch p =
     (Inr (json_resp (N_error
        (''OpenAI API error. Please try again later or '' @
         ''contact the site owner.'')) 502), [p])" for p
  proof -
    obtain st raw where "fetch p = HttpResponse st (Some raw)" "\<not> resp_ok st"
      using a by blast
    then show ?thesis
      by (rule N_generate_bad)
  qed
  have "snd (N_try parse key fetch today ev) \<noteq> []"
    using c by (simp add: N_handler_def split: prod.splits sum.splits)
  then obtain p where "N_try parse key fetch today ev = N_generate parse fetch p"
    using N_try_cases [of parse key fetch today ev] by blast
  then show "fst (N_handler parse key fetch today ev) =
      json_resp (N_error
        (''OpenAI API error. Please try again later or '' @
         ''contact the site owner.'')) 502"
    by (simp add: N_handler_def n)
next
  assume a: "\<forall>p. \<exists>st b. fetch p = HttpResponse st b \<and> \<not> resp_ok st"
    and c: "snd (V_handler parse Date_parse key fetch now req) \<noteq> []"
  have v: "V_generate parse fetch p =
     (json_resp (V_error
        (''OpenAI API error. Please try again later or contact the site '' @
         ''owner if this persists.'')) 502, [p])" for p
  proof -
    obtain st b where "fetch p = HttpResponse st b" "\<not> resp_ok st"
      using a by blast
    then show ?thesis
      by (rule V_generate_bad)
  qed
  obtain p where "V_handler parse Date_parse key fetch now req =
      (Inr (fst (V_generate parse fetch p)), snd (V_generate parse fetch p))"
    using V_handler_cases [of parse Date_parse key fetch now req] c by blast
  then show "fst (V_handler parse Date_parse key fetch now req) =
      Inr (json_resp (V_error
        (''OpenAI API error. Please try again later or contact the site '' @
         ''owner if this persists.'')) 502)"
    by (simp add: v)
next
  assume a: "\<forall>p. \<exists>st b. fetch p = HttpResponse st b \<and> \<not> resp_ok st"
    and c: "snd (R_handler parse upper Date_parse e fetch now ev) \<noteq> []"
  show "fst (R_handler parse upper Date_parse e fetch now ev) =
      json_resp (R_message ''Server error. Please try again later.'') 500"
    using a c by (rule R_handler_bad)
qed

theorem upstream_error_witness:
  \<open>fst (N_handler sample_parse (Some ''sk-test'') (fetch_reply 503 ''upstream says no'')
        ''2026-04-30'' (post (Some ''{"dob":"08DEC1977"}''))) =
     json_resp (N_error
       (''OpenAI API error. Please try again later or '' @
        ''contact the site owner.'')) 502 \<and>
   fst (V_handler sample_parse sample_Date_parse (Some ''sk-test'')
        (fetch_reply 503 ''upstream says no'') 0
        (vpost (Some (JStr ''{"dob":"08DEC1977"}'')) [])) =
     Inr (json_resp (V_error
       (''OpenAI API error. Please try again later or contact the site '' @
        ''owner if this persists.'')) 502) \<and>
   fst (R_handler sample_parse sample_upper sample_Date_parse sample_env
        (fetch_reply 503 ''upstream says no'') 0 (post (Some ''{"dob":"08DEC1977"}''))) =
     json_resp (R_message ''Server error. Please try again later.'') 500\<close>
proof -
  have f: "\<forall>p. \<exists>st raw. fetch_reply 503 ''upstream says no'' p = HttpResponse st (Some raw) \<and>
      \<not> resp_ok st"
    by (simp add: fetch_reply_def resp_ok_def)
  have g: "\<forall>p. \<exists>st b. fetch_reply 503 ''upstream says no'' p = HttpResponse st b \<and>
      \<not> resp_ok st"
    by (simp add: fetch_reply_def resp_ok_def)
  have n: \<open>snd (N_handler sample_parse (Some ''sk-test'') (fetch_reply 503 ''upstream says no'')
        ''2026-04-30'' (post (Some ''{"dob":"08DEC1977"}''))) \<noteq> []\<close>
    by code_simp
  have v: \<open>snd (V_handler sample_parse sample_Date_parse (Some ''sk-test'')
        (fetch_reply 503 ''upstream says no'') 0
        (vpost (Some (JStr ''{"dob":"08DEC1977"}'')) [])) \<noteq> []\<close>
    by code_simp
  have r: \<open>snd (R_handler sample_parse sample_upper sample_Date_parse sample_env
        (fetch_reply 503 ''upstream says no'') 0 (post (Some ''{"dob":"08DEC1977"}''))) \<noteq> []\<close>
    by code_simp
  show ?thesis
    using f g n v r
      upstream_error [where fetch = "fetch_reply 503 ''upstream says no''"
        and parse = sample_parse and key = "Some ''sk-test''" and today = "''2026-04-30''"
        and ev = \<open>post (Some ''{"dob":"08DEC1977"}'')\<close> and Date_parse = sample_Date_parse
        and now = 0 and req = \<open>vpost (Some (JStr ''{"dob":"08DEC1977"}'')) []\<close>
        and e = sample_env and upper = sample_upper]
    by blast
qed

text \<open>
  C5, as stated: the extraction of every variant accepts both shapes of an upstream
  response. This fails in \<^verbatim>\<open>fortune.js\<close>, which reads only
  \<open>choices[0].message.content\<close>: a response that carries its text under
  \<open>output_text\<close> is answered with the apology fallback.
\<close>

theorem output_text_ignored_by_chat_variant:
  \<open>direct_text (JObj [(''output_text'', JStr ''<p>ok</p>'')]) = Some (JStr ''<p>ok</p>'') \<and>
   N_handler sample_parse (Some ''sk-test'') (fetch_reply 200 ''{"output_text":"<p>ok</p>"}'')
       ''2026-04-30'' (post (Some ''{"dob":"08DEC1977"}'')) =
     (json_resp (JObj [(''html'', JStr N_fallback_html)]) 200, [N_prompt ''08DEC1977'' ''en''])\<close>
  by code_simp

text \<open>
  C5, amended: the extraction of the variant on the Responses API (\<open>callOpenAI\<close>)
  accepts both shapes: a non-empty string under \<open>output_text\<close> is returned as it is,
  and when \<open>output_text\<close> is absent or falsy the string under
  \<open>choices[0].message.content\<close> is returned; the handler wraps that string, a line
  break and the sign-off into \<open>resultHtml\<close>. The two variants on the Chat Completions
  API read the nested shape only (the Vercel variant trims it).
\<close>

theorem extraction_shapes:
  "(direct_text data = Some (JStr s) \<and> s \<noteq> [] \<longrightarrow> extract_text data = Inr (JStr s)) \<and>
   (\<not> truthy (direct_text data) \<and> nested_content data = Some (JStr s) \<longrightarrow>
      extract_text data = Inr (JStr s)) \<and>
   (truthy_str (OPENAI_API_KEY e) \<and> fetch p = HttpResponse st (Some raw) \<and> resp_ok st \<and>
    parse raw = Some data \<and> extract_text data = Inr (JStr s) \<longrightarrow>
      callOpenAI parse e fetch p = (Inr (JStr s), [p])) \<and>
   (parse (or_empty_object (ev_body ev)) = Some b \<and> R_dob upper b = Inr dob \<and> isValidDOB dob \<and>
    callOpenAI parse e fetch (buildPrompt dob) = (Inr (JStr s), calls) \<longrightarrow>
      R_process parse upper e fetch ev =
        (Inr (json_resp (JObj [(''resultHtml'', JStr (s @ ''\<newline>'' @ R_signOff e))]) 200),
         calls)) \<and>
   (nested_content data = Some (JStr s) \<longrightarrow>
      chat_content data = Inr (Some (JStr s)) \<and>
      V_content data = Inr (Some (JStr (trim s))))"
proof -
  have d: "extract_text data = Inr (JStr s)" if "direct_text data = Some (JStr s)" "s \<noteq> []"
    using that direct_prop [OF that(1)] by (simp add: extract_text_def)
  have n: "extract_text data = Inr (JStr s)"
    if "\<not> truthy (direct_text data)" "nested_content data = Some (JStr s)"
    using that nested_prop [OF that(2)] nested_chat [OF that(2)]
    by (simp add: extract_text_def)
  have c: "callOpenAI parse e fetch p = (Inr (JStr s), [p])"
    if "truthy_str (OPENAI_API_KEY e)" "fetch p = HttpResponse st (Some raw)" "resp_ok st"
       "parse raw = Some data" "extract_text data = Inr (JStr s)"
    using that by (simp add: callOpenAI_def)
  have w: "R_process parse upper e fetch ev =
        (Inr (json_resp (JObj [(''resultHtml'', JStr (s @ ''\<newline>'' @ R_signOff e))]) 200),
         calls)"
    if "parse (or_empty_object (ev_body ev)) = Some b" "R_dob upper b = Inr dob" "isValidDOB dob"
       "callOpenAI parse e fetch (buildPrompt dob) = (Inr (JStr s), calls)"
    using that by (simp add: R_process_def)
  show ?thesis
    using d n c w nested_chat nested_V by blast
qed

theorem extraction_shapes_witness:
  \<open>extract_text direct_sample = Inr (JStr ''<p>ok</p>'') \<and>
   extract_text nested_sample = Inr (JStr ''<p>ok</p>'') \<and>
   callOpenAI sample_parse sample_env (fetch_reply 200 ''{"output_text":"<p>ok</p>"}'')
       (buildPrompt ''08DEC1977'') =
     (Inr (JStr ''<p>ok</p>''), [buildPrompt ''08DEC1977'']) \<and>
   R_process sample_parse sample_upper sample_env (fetch_reply 200 ''{"output_text":"<p>ok</p>"}'')
       (post (Some ''{"dob":"08DEC1977"}'')) =
     (Inr (json_resp (JObj [(''resultHtml'',
        JStr (''<p>ok</p>'' @ ''\<newline>'' @ R_signOff sample_env))]) 200),
      [buildPrompt ''08DEC1977'']) \<and>
   chat_content nested_sample = Inr (Some (JStr ''<p>ok</p>'')) \<and>
   V_content nested_sample = Inr (Some (JStr (trim ''<p>ok</p>'')))\<close>
proof -
  have h1: "direct_text direct_sample = Some (JStr ''<p>ok</p>'') \<and> ''<p>ok</p>'' \<noteq> []"
    by (simp add: direct_text_def direct_sample_def)
  have h2: "\<not> truthy (direct_text nested_sample) \<and>
      nested_content nested_sample = Some (JStr ''<p>ok</p>'')"
    by (simp add: direct_text_def nested_content_def nested_sample_def)
  have h3: \<open>truthy_str (OPENAI_API_KEY sample_env) \<and>
      fetch_reply 200 ''{"output_text":"<p>ok</p>"}'' (buildPrompt ''08DEC1977'') =
        HttpResponse 200 (Some ''{"output_text":"<p>ok</p>"}'') \<and>
      resp_ok 200 \<and> sample_parse ''{"output_text":"<p>ok</p>"}'' = Some direct_sample\<close>
    by (simp add: truthy_str_def sample_env_def fetch_reply_def resp_ok_def sample_parse_def
        direct_sample_def)
  have h4: \<open>sample_parse (or_empty_object (ev_body (post (Some ''{"dob":"08DEC1977"}'')))) =
        Some (JObj [(''dob'', JStr ''08DEC1977'')]) \<and>
      R_dob sample_upper (JObj [(''dob'', JStr ''08DEC1977'')]) = Inr ''08DEC1977'' \<and>
      isValidDOB ''08DEC1977''\<close>
    by code_simp
  note a = extraction_shapes [where data = direct_sample and s = "''<p>ok</p>''"
      and e = sample_env and upper = sample_upper and fetch = \<open>fetch_reply 200 ''{"output_text":"<p>ok</p>"}''\<close>
      and p = "buildPrompt ''08DEC1977''" and st = 200
      and raw = \<open>''{"output_text":"<p>ok</p>"}''\<close> and parse = sample_parse
      and ev = \<open>post (Some ''{"dob":"08DEC1977"}'')\<close>
      and b = "JObj [(''dob'', JStr ''08DEC1977'')]" and dob = "''08DEC1977''"
      and calls = "[buildPrompt ''08DEC1977'']"]
  note b = extraction_shapes [where data = nested_sample and s = "''<p>ok</p>''"]
  show ?thesis
    using a b h1 h2 h3 h4 by blast
qed

text \<open>
  C6: with language \<open>zh\<close>, the prompt of \<^verbatim>\<open>fortune.js\<close> and the prompt of the Vercel
  variant (the two variants that take a language) contain, for every date of birth, the
  instruction to write in Simplified Chinese and the literal tokens \<open>Do:\<close> and
  \<open>Don't:\<close>; and that prompt is the one sent upstream for a request whose body has a
  valid date of birth and \<open>language: "zh"\<close>.
\<close>

theorem zh_prompt_keeps_tokens:
  "sublist ''Write the entire report in natural, fluent Simplified Chinese'' (N_prompt dob ''zh'') \<and>
   sublist ''Do:'' (N_prompt dob ''zh'') \<and>
   sublist ''Don't:'' (N_prompt dob ''zh'') \<and>
   sublist ''Write the entire report in natural, fluent Simplified Chinese'' (V_prompt dob ''zh'') \<and>
   sublist ''Do:'' (V_prompt dob ''zh'') \<and>
   sublist ''Don't:'' (V_prompt dob ''zh'') \<and>
   (parse (or_empty_object (ev_body ev)) = Some v \<and>
    get_prop (Some v) ''dob'' = Inr (Some (JStr d)) \<and> d \<noteq> [] \<and>
    get_prop (Some v) ''language'' = Inr (Some (JStr ''zh'')) \<longrightarrow>
      snd (N_process parse fetch ev) = [N_prompt d ''zh'']) \<and>
   (parseJsonBody parse req = Inr v \<and>
    get_prop (Some v) ''dob'' = Inr (Some (JStr d)) \<and> trim d \<noteq> [] \<and>
    get_prop (Some v) ''language'' = Inr (Some (JStr ''zh'')) \<longrightarrow>
      snd (V_process parse fetch req) = [V_prompt (trim d) ''zh''])"
proof -
  have n: "sublist x N_languageInstruction_zh \<Longrightarrow> sublist x (N_prompt dob ''zh'')" for x
    by (simp add: N_prompt_eq N_languageInstruction_def sublist_in_right)
  have v1: "sublist x V_languageInstruction_zh \<Longrightarrow> sublist x (V_prompt dob ''zh'')" for x
    by (simp add: V_prompt_def V_languageInstruction_def sublist_in_left)
  have v2: "sublist x V_sections_post \<Longrightarrow> sublist x (V_prompt dob ''zh'')" for x
    by (simp only: V_prompt_def V_sectionsInstruction_def sublist_in_right)
  have pn: "parse (or_empty_object (ev_body ev)) = Some v \<and>
    get_prop (Some v) ''dob'' = Inr (Some (JStr d)) \<and> d \<noteq> [] \<and>
    get_prop (Some v) ''language'' = Inr (Some (JStr ''zh'')) \<longrightarrow>
      snd (N_process parse fetch ev) = [N_prompt d ''zh'']"
    using N_process_zh by blast
  have pv: "parseJsonBody parse req = Inr v \<and>
    get_prop (Some v) ''dob'' = Inr (Some (JStr d)) \<and> trim d \<noteq> [] \<and>
    get_prop (Some v) ''language'' = Inr (Some (JStr ''zh'')) \<longrightarrow>
      snd (V_process parse fetch req) = [V_prompt (trim d) ''zh'']"
    using V_process_zh by blast
  show ?thesis
    by (intro conjI n v1 v2 sub_N_zh sub_V_zh pn pv)
qed

theorem zh_prompt_keeps_tokens_witness:
  \<open>snd (N_process sample_parse (fetch_reply 200 [])
       (post (Some ''{"dob":"08DEC1977","language":"zh"}''))) = [N_prompt ''08DEC1977'' ''zh''] \<and>
   snd (V_process sample_parse (fetch_reply 200 [])
       (vpost (Some (JStr ''{"dob":"08DEC1977","language":"zh"}'')) [])) =
     [V_prompt (trim ''08DEC1977'') ''zh''] \<and>
   sublist ''Do:'' (N_prompt ''08DEC1977'' ''zh'') \<and>
   sublist ''Don't:'' (V_prompt ''08DEC1977'' ''zh'')\<close>
proof -
  let ?v = "JObj [(''dob'', JStr ''08DEC1977''), (''language'', JStr ''zh'')]"
  have h: \<open>sample_parse (or_empty_object
        (ev_body (post (Some ''{"dob":"08DEC1977","language":"zh"}'')))) = Some ?v \<and>
      parseJsonBody sample_parse
        (vpost (Some (JStr ''{"dob":"08DEC1977","language":"zh"}'')) []) = Inr ?v \<and>
      get_prop (Some ?v) ''dob'' = Inr (Some (JStr ''08DEC1977'')) \<and>
      get_prop (Some ?v) ''language'' = Inr (Some (JStr ''zh'')) \<and>
      ''08DEC1977'' \<noteq> [] \<and> trim ''08DEC1977'' \<noteq> []\<close>
    by code_simp
  show ?thesis
    using h zh_prompt_keeps_tokens [where dob = "''08DEC1977''" and parse = sample_parse
        and ev = \<open>post (Some ''{"dob":"08DEC1977","language":"zh"}'')\<close> and v = ?v
        and d = "''08DEC1977''" and fetch = "fetch_reply 200 []"
        and req = \<open>vpost (Some (JStr ''{"dob":"08DEC1977","language":"zh"}'')) []\<close>]
    by simp
qed

text \<open>
  C7, as stated: for every valid pair the prompt contains the date of birth exactly once
  for its one template slot. This fails in \<^verbatim>\<open>fortune.js\<close>, where every non-empty string
  is a valid date of birth: \<open>2026\<close> is one, and the prompt built from it contains
  \<open>2026\<close> five times, four of them in the template's own text.
\<close>

theorem dob_2026_occurs_five_times:
  \<open>snd (N_handler sample_parse (Some ''sk-test'') (fetch_reply 200 []) ''2026-04-30''
       (post (Some ''{"dob":"2026"}''))) = [N_prompt ''2026'' ''en''] \<and>
   occurrences ''2026'' (N_prompt ''2026'' ''en'') = 5\<close>
  by code_simp

text \<open>
  C7, amended: each prompt is a function of the date of birth and the language alone (the
  prompt functions take nothing else), so two constructions from the same pair are the
  same bytes; the template has one slot for the date of birth: the prompt is a fixed
  text, the date of birth, and a fixed text, both depending on nothing but the language;
  and a date of birth of the form two digits, three capitals, four digits (every valid
  one of the strict variant) occurs exactly once in the prompt of each variant.
\<close>

theorem prompt_single_slot:
  "N_prompt dob lang = N_head @ dob @ N_tail lang \<and>
   buildPrompt dob = R_prompt_pre @ dob @ R_prompt_post \<and>
   V_prompt dob lang = V_head lang @ dob @ V_sections_post \<and>
   (isValidDOB dob \<longrightarrow>
      occurrences dob (N_prompt dob lang) = 1 \<and>
      occurrences dob (buildPrompt dob) = 1 \<and>
      occurrences dob (V_prompt dob lang) = 1)"
proof -
  have n: "N_prompt dob lang = N_head @ dob @ N_tail lang"
    by (simp only: N_prompt_eq N_tail_def)
  have r: "buildPrompt dob = R_prompt_pre @ dob @ R_prompt_post"
    by (simp only: buildPrompt_def)
  have v: "V_prompt dob lang = V_head lang @ dob @ V_sections_post"
    by (simp only: V_prompt_def V_head_def V_sectionsInstruction_def append_assoc)
  show ?thesis
    using n r v N_once R_once V_once by blast
qed

theorem prompt_single_slot_witness:
  "isValidDOB ''08DEC1977'' \<and>
   occurrences ''08DEC1977'' (N_prompt ''08DEC1977'' ''zh'') = 1 \<and>
   occurrences ''08DEC1977'' (buildPrompt ''08DEC1977'') = 1 \<and>
   occurrences ''08DEC1977'' (V_prompt ''08DEC1977'' ''zh'') = 1"
proof -
  have "isValidDOB ''08DEC1977''"
    by code_simp
  then show ?thesis
    using prompt_single_slot [of "''08DEC1977''" "''zh''"] by blast
qed

text \<open>
  C8: when the configured cutoff does not parse as a date, a POST request (with the
  credential set, in the Vercel variant) is processed as if there were no expiry gate,
  whatever the clock says, and the answer is not the expiry outcome. This concerns the
  two variants that parse a date: the Vercel variant and the variant on the Responses
  API, whose cutoff is the environment variable.
\<close>

theorem unparseable_cutoff_fails_open:
  "(req_method req = ''POST'' \<and> truthy_str key \<and>
    Date_parse (V_EXPIRY_DATE @ ''T23:59:59Z'') = None \<longrightarrow>
      V_handler parse Date_parse key fetch now req = V_process parse fetch req \<and>
      (\<forall>r calls. V_handler parse Date_parse key fetch now req = (Inr r, calls) \<longrightarrow>
         statusCode r \<noteq> 410)) \<and>
   (httpMethod ev = ''POST'' \<and> EXPIRY_DATE_var e = Some s \<and> Date_parse s = None \<longrightarrow>
      R_try parse upper Date_parse e fetch now ev = R_process parse upper e fetch ev \<and>
      fst (R_try parse upper Date_parse e fetch now ev) \<noteq>
        Inr (json_resp (JObj [(''resultHtml'', JStr (''<p>'' @ EXPIRY_MESSAGE @ ''</p>''))]) 200))"
proof -
  have v: "V_handler parse Date_parse key fetch now req = V_process parse fetch req"
    if "req_method req = ''POST''" "truthy_str key"
       "Date_parse (V_EXPIRY_DATE @ ''T23:59:59Z'') = None"
    using that by (simp add: V_handler_def)
  have v': "statusCode r \<noteq> 410" if "V_process parse fetch req = (Inr r, calls)" for r calls
    using V_process_status [OF that] by auto
  have r: "R_try parse upper Date_parse e fetch now ev = R_process parse upper e fetch ev"
    if "httpMethod ev = ''POST''" "EXPIRY_DATE_var e = Some s" "Date_parse s = None"
    using that by (simp add: R_try_def R_expired_def)
  show ?thesis
    using v v' r R_process_not_notice [of parse upper e fetch ev] by auto
qed

theorem unparseable_cutoff_fails_open_witness:
  "V_handler sample_parse no_Date_parse (Some ''sk-test'') (fetch_reply 200 []) 1777507200001
       (vpost None []) =
     V_process sample_parse (fetch_reply 200 []) (vpost None []) \<and>
   R_try sample_parse sample_upper no_Date_parse sample_env (fetch_reply 200 []) 1777507200001 (post None) =
     R_process sample_parse sample_upper sample_env (fetch_reply 200 []) (post None)"
  using unparseable_cutoff_fails_open [where req = "vpost None []" and key = "Some ''sk-test''"
      and Date_parse = no_Date_parse and ev = "post None" and e = sample_env and upper = sample_upper
      and s = "''2026-04-30''" and parse = sample_parse and fetch = "fetch_reply 200 []"
      and now = 1777507200001]
  by (simp add: vpost_def post_def truthy_str_def no_Date_parse_def sample_env_def)

text \<open>
  C9, as stated: every 200 response carries a non-empty string under its result field.
  This fails in \<^verbatim>\<open>fortune.js\<close> when the upstream content is a truthy value that is
  not a string: \<open>message || fallback\<close> passes the number 42 through, and the body is
  \<open>{"html": 42}\<close>.
\<close>

theorem numeric_content_passed_through:
  \<open>N_handler sample_parse (Some ''sk-test'')
       (fetch_reply 200 ''{"choices":[{"message":{"content":42}}]}'')
       ''2026-04-30'' (post (Some ''{"dob":"08DEC1977"}'')) =
     (json_resp (JObj [(''html'', JNum ''42'')]) 200, [N_prompt ''08DEC1977'' ''en''])\<close>
  by code_simp

text \<open>
  C9, amended: every 200 response carries a non-empty string under its result field
  (\<open>html\<close>, or \<open>resultHtml\<close> in the variant on the Responses API), also when the
  upstream text is absent or empty; in \<^verbatim>\<open>fortune.js\<close> provided the value the upstream
  response yields for \<open>choices[0].message.content\<close> is a string or falsy.
\<close>

theorem success_body_nonempty:
  "((\<forall>p st raw data m. fetch p = HttpResponse st (Some raw) \<and> parse raw = Some data \<and>
        chat_content data = Inr m \<longrightarrow> string_or_falsy m) \<and>
    statusCode (fst (N_handler parse key fetch today ev)) = 200 \<longrightarrow>
      (\<exists>s. s \<noteq> [] \<and> body (fst (N_handler parse key fetch today ev)) = JObj [(''html'', JStr s)])) \<and>
   (statusCode (fst (R_handler parse upper Date_parse e fetch now ev)) = 200 \<longrightarrow>
      (\<exists>s. s \<noteq> [] \<and>
         body (fst (R_handler parse upper Date_parse e fetch now ev)) = JObj [(''resultHtml'', JStr s)])) \<and>
   (V_handler parse Date_parse key fetch now req = (Inr r, calls) \<and> statusCode r = 200 \<longrightarrow>
      (\<exists>s. s \<noteq> [] \<and> body r = JObj [(''html'', JStr s)]))"
proof (intro conjI impI)
  assume h: "(\<forall>p st raw data m. fetch p = HttpResponse st (Some raw) \<and> parse raw = Some data \<and>
        chat_content data = Inr m \<longrightarrow> string_or_falsy m) \<and>
    statusCode (fst (N_handler parse key fetch today ev)) = 200"
  then have a: "\<forall>p st raw data m. fetch p = HttpResponse st (Some raw) \<and> parse raw = Some data \<and>
        chat_content data = Inr m \<longrightarrow> string_or_falsy m"
    and b: "statusCode (fst (N_handler parse key fetch today ev)) = 200"
    by (rule conjunct1, rule conjunct2)
  obtain x c where t: "N_try parse key fetch today ev = (x, c)"
    by (cases "N_try parse key fetch today ev")
  show "\<exists>s. s \<noteq> [] \<and> body (fst (N_handler parse key fetch today ev)) = JObj [(''html'', JStr s)]"
  proof (cases x)
    case (Inl err)
    then show ?thesis
      using b t by (simp add: N_handler_def json_resp_def)
  next
    case (Inr r)
    then have f: "fst (N_handler parse key fetch today ev) = r"
      using t by (simp add: N_handler_def)
    have "N_try parse key fetch today ev = (Inr r, c)"
      using t Inr by simp
    then have "\<exists>s. s \<noteq> [] \<and> body r = JObj [(''html'', JStr s)]"
      using b f by (intro N_try_success [OF a]) simp_all
    then show ?thesis
      using f by simp
  qed
next
  assume "statusCode (fst (R_handler parse upper Date_parse e fetch now ev)) = 200"
  then show "\<exists>s. s \<noteq> [] \<and>
         body (fst (R_handler parse upper Date_parse e fetch now ev)) = JObj [(''resultHtml'', JStr s)]"
    by (rule R_handler_success)
next
  assume "V_handler parse Date_parse key fetch now req = (Inr r, calls) \<and> statusCode r = 200"
  then show "\<exists>s. s \<noteq> [] \<and> body r = JObj [(''html'', JStr s)]"
    using V_handler_success by blast
qed

theorem success_body_nonempty_witness:
  \<open>(\<exists>s. s \<noteq> [] \<and>
      body (fst (N_handler sample_parse (Some ''sk-test'') (fetch_reply 200 ''{"choices":[]}'')
        ''2026-04-30'' (post (Some ''{"dob":"08DEC1977"}'')))) = JObj [(''html'', JStr s)]) \<and>
   (\<exists>s. s \<noteq> [] \<and>
      body (fst (R_handler sample_parse sample_upper sample_Date_parse sample_env
        (fetch_reply 200 ''{"choices":[]}'') 0 (post (Some ''{"dob":"08DEC1977"}'')))) =
        JObj [(''resultHtml'', JStr s)]) \<and>
   (\<exists>s. s \<noteq> [] \<and>
      body (json_resp (JObj [(''html'', JStr V_fallback_html)]) 200) = JObj [(''html'', JStr s)])\<close>
proof -
  have u: \<open>\<forall>p st raw data m. fetch_reply 200 ''{"choices":[]}'' p = HttpResponse st (Some raw) \<and>
      sample_parse raw = Some data \<and> chat_content data = Inr m \<longrightarrow> string_or_falsy m\<close>
    by (auto simp add: fetch_reply_def sample_parse_def chat_content_def string_or_falsy_def)
  have n: \<open>statusCode (fst (N_handler sample_parse (Some ''sk-test'')
      (fetch_reply 200 ''{"choices":[]}'') ''2026-04-30''
      (post (Some ''{"dob":"08DEC1977"}'')))) = 200\<close>
    by code_simp
  have r: \<open>statusCode (fst (R_handler sample_parse sample_upper sample_Date_parse sample_env
      (fetch_reply 200 ''{"choices":[]}'') 0 (post (Some ''{"dob":"08DEC1977"}'')))) = 200\<close>
    by code_simp
  have v: \<open>V_handler sample_parse sample_Date_parse (Some ''sk-test'')
      (fetch_reply 200 ''{"choices":[]}'') 0 (vpost (Some (JStr ''{"dob":"08DEC1977"}'')) []) =
      (Inr (json_resp (JObj [(''html'', JStr V_fallback_html)]) 200),
       [V_prompt ''08DEC1977'' ''en'']) \<and>
      statusCode (json_resp (JObj [(''html'', JStr V_fallback_html)]) 200) = 200\<close>
    by code_simp
  show ?thesis
    using u n r v
      success_body_nonempty [where fetch = \<open>fetch_reply 200 ''{"choices":[]}''\<close>
        and parse = sample_parse and key = "Some ''sk-test''" and today = "''2026-04-30''"
        and ev = \<open>post (Some ''{"dob":"08DEC1977"}'')\<close> and Date_parse = sample_Date_parse
        and e = sample_env and upper = sample_upper and now = 0
        and req = \<open>vpost (Some (JStr ''{"dob":"08DEC1977"}'')) []\<close>
        and r = "json_resp (JObj [(''html'', JStr V_fallback_html)]) 200"
        and calls = "[V_prompt ''08DEC1977'' ''en'']"]
    by blast
qed

text \<open>
  C10, as stated: every POST request whose body is absent or the empty string is answered
  with the 400 InvalidInput outcome. This fails for a request that does not reach body
  parsing: in the Vercel variant the expiry gate comes first, and a POST with an empty
  body one millisecond after the cutoff is answered 410.
\<close>

theorem empty_body_after_cutoff_is_410:
  "\<not> truthy (Some (JStr [])) \<and>
   V_handler sample_parse sample_Date_parse (Some ''sk-test'') (fetch_reply 200 [])
       1775001599001 (vpost (Some (JStr [])) []) =
     (Inr (json_resp (V_error
        (''This 2026 Auspicious Report campaign has ended. Please check '' @
         ''back for future editions.'')) 410), [])"
  by code_simp

text \<open>
  C10, amended: a POST request that reaches body parsing (credential set and service
  not expired, where the variant checks them first) with an absent or empty body is
  parsed as the empty object and answered with the 400 InvalidInput outcome for the
  missing date of birth, with no upstream call. In the Netlify variants the empty
  object is the result of \<open>JSON.parse("{}")\<close>; in the Vercel variant it is
  substituted directly.
\<close>

theorem empty_body_is_missing_dob:
  "(httpMethod ev = ''POST'' \<and> truthy_str key \<and> \<not> today > EXPIRY_DATE \<and>
    \<not> truthy_str (ev_body ev) \<and> parse ''{}'' = Some (JObj []) \<longrightarrow>
      N_handler parse key fetch today ev = (N_invalid_dob, [])) \<and>
   (httpMethod ev = ''POST'' \<and> \<not> R_expired Date_parse e now \<and>
    \<not> truthy_str (ev_body ev) \<and> parse ''{}'' = Some (JObj []) \<longrightarrow>
      R_handler parse upper Date_parse e fetch now ev =
        (json_resp (R_message ''Please use DDMMMYYYY, e.g., 08DEC1977.'') 400, [])) \<and>
   (req_method req = ''POST'' \<and> truthy_str key \<and> \<not> V_expired Date_parse now \<and>
    \<not> truthy (req_body req) \<and> req_stream req = StreamData [] \<longrightarrow>
      parseJsonBody parse req = Inr (JObj []) \<and>
      V_handler parse Date_parse key fetch now req =
        (Inr (json_resp (V_error
           (''Missing or invalid 'dob'. Please provide DDMMMYYYY '' @
            ''(e.g. 08DEC1977).'')) 400), []))"
proof -
  have b: "or_empty_object (ev_body ev) = ''{}''" if "\<not> truthy_str (ev_body ev)"
    using that by (simp add: or_empty_object_def truthy_str_def split: option.splits)
  have n: "N_process parse fetch ev = (Inr N_invalid_dob, [])"
    if "\<not> truthy_str (ev_body ev)" "parse ''{}'' = Some (JObj [])"
    using that b by (simp add: N_process_def)
  have r: "R_process parse upper e fetch ev =
      (Inr (json_resp (R_message ''Please use DDMMMYYYY, e.g., 08DEC1977.'') 400), [])"
    if "\<not> truthy_str (ev_body ev)" "parse ''{}'' = Some (JObj [])"
    using that b
    by (simp add: R_process_def R_dob_def trim_def toUpperCase_def ascii_def isValidDOB_def)
  have p: "parseJsonBody parse req = Inr (JObj [])"
    if "\<not> truthy (req_body req)" "req_stream req = StreamData []"
    using that by (cases "req_body req") (simp_all add: parseJsonBody_def read_stream_def)
  have v: "V_process parse fetch req =
      (Inr (json_resp (V_error
           (''Missing or invalid 'dob'. Please provide DDMMMYYYY '' @
            ''(e.g. 08DEC1977).'')) 400), [])"
    if "\<not> truthy (req_body req)" "req_stream req = StreamData []"
    using p [OF that] by (simp add: V_process_def)
  show ?thesis
    using n r p v
    by (simp add: N_handler_def N_handler_open R_handler_def R_try_open V_handler_open)
qed

theorem empty_body_is_missing_dob_witness:
  "N_handler sample_parse (Some ''sk-test'') (fetch_reply 200 []) ''2026-04-30'' (post (Some [])) =
     (N_invalid_dob, []) \<and>
   R_handler sample_parse sample_upper sample_Date_parse sample_env (fetch_reply 200 []) 1777507200000 (post None) =
     (json_resp (R_message ''Please use DDMMMYYYY, e.g., 08DEC1977.'') 400, []) \<and>
   V_handler sample_parse sample_Date_parse (Some ''sk-test'') (fetch_reply 200 []) 1775001599000
       (vpost (Some (JStr [])) []) =
     (Inr (json_resp (V_error
        (''Missing or invalid 'dob'. Please provide DDMMMYYYY '' @
         ''(e.g. 08DEC1977).'')) 400), [])"
  using empty_body_is_missing_dob [where ev = "post (Some [])" and key = "Some ''sk-test''"
      and today = "''2026-04-30''" and parse = sample_parse and fetch = "fetch_reply 200 []"
      and Date_parse = sample_Date_parse and e = sample_env and upper = sample_upper and now = 1775001599000
      and req = "vpost (Some (JStr [])) []"]
    empty_body_is_missing_dob [where ev = "post None" and key = "Some ''sk-test''"
      and today = "''2026-04-30''" and parse = sample_parse and fetch = "fetch_reply 200 []"
      and Date_parse = sample_Date_parse and e = sample_env and upper = sample_upper and now = 1777507200000
      and req = "vpost (Some (JStr [])) []"]
  by (simp add: post_def vpost_def truthy_str_def EXPIRY_DATE_def sample_parse_def
      R_expired_def V_expired_def sample_env_def sample_Date_parse_def V_EXPIRY_DATE_def)

end
